theory Spec2Isabelle
  imports Main "HOL-Library.Sublist"
begin

section \<open>Python and Cypher primitives used by the handlers\<close>

text \<open>
  Strings are byte lists. The two non-ASCII literals of the source are written as their
  UTF-8 bytes. \<open>str\<close> of a number is its decimal rendering.
\<close>

definition digit_char :: "nat \<Rightarrow> char" where
  "digit_char d = char_of (48 + d)"

function str_nat :: "nat \<Rightarrow> string" where
  "str_nat n = (if n < 10 then [digit_char n] else str_nat (n div 10) @ [digit_char (n mod 10)])"
  by pat_completeness auto
termination
  by (relation "measure (\<lambda>n. n)") auto

definition str_int :: "int \<Rightarrow> string" where
  "str_int i = (if i < 0 then CHR ''-'' # str_nat (nat (- i)) else str_nat (nat i))"

text \<open>\<open>str.lower\<close> and Cypher's \<open>toLower\<close>, on the ASCII letters.\<close>

definition lower_char :: "char \<Rightarrow> char" where
  "lower_char c =
     (let n = (of_char c :: nat) in if 65 \<le> n \<and> n \<le> 90 then char_of (n + 32) else c)"

definition lower :: "string \<Rightarrow> string" where
  "lower s = map lower_char s"

text \<open>\<open>s.replace(' ', '-')\<close>.\<close>

definition replace_space_dash :: "string \<Rightarrow> string" where
  "replace_space_dash s = map (\<lambda>c. if c = CHR '' '' then CHR ''-'' else c) s"

text \<open>\<open>s.partition(" ")\<close>: the text before the first space and the text after it.\<close>

definition partition_space :: "string \<Rightarrow> string \<times> string" where
  "partition_space s =
     (takeWhile (\<lambda>c. c \<noteq> CHR '' '') s, drop 1 (dropWhile (\<lambda>c. c \<noteq> CHR '' '') s))"

text \<open>\<open>s.split("@")[0]\<close>: the text before the first at-sign.\<close>

definition split_at_first :: "string \<Rightarrow> string" where
  "split_at_first s = takeWhile (\<lambda>c. c \<noteq> CHR ''@'') s"

text \<open>
  \<open>uuid.uuid4()\<close> draws a random value. A request receives its draws as a function from
  the number of the draw to the 32 hexadecimal digits drawn; \<open>.hex[:8]\<close> keeps eight of
  them and \<open>str\<close> groups them 8-4-4-4-12.
\<close>

type_synonym uuid_source = "nat \<Rightarrow> string"

definition hex8 :: "string \<Rightarrow> string" where
  "hex8 h = take 8 h"

definition uuid_str :: "string \<Rightarrow> string" where
  "uuid_str h = take 8 h @ ''-'' @ take 4 (drop 8 h) @ ''-'' @ take 4 (drop 12 h) @ ''-''
     @ take 4 (drop 16 h) @ ''-'' @ take 12 (drop 20 h)"

text \<open>
  Cypher predicates are three-valued: \<open>None\<close> is \<open>null\<close>. \<open>AND\<close> binds tighter than
  \<open>OR\<close>, \<open>x IN list\<close> is null when \<open>x\<close> is null, \<open>toLower\<close> and \<open>CONTAINS\<close> of
  null are null, and \<open>list[0]\<close> is null for a null or empty list. \<open>WHERE\<close> keeps a row
  only when its predicate is true.
\<close>

type_synonym tri = "bool option"

definition c_or :: "tri \<Rightarrow> tri \<Rightarrow> tri" where
  "c_or a b =
     (if a = Some True \<or> b = Some True then Some True
      else if a = None \<or> b = None then None else Some False)"

definition c_and :: "tri \<Rightarrow> tri \<Rightarrow> tri" where
  "c_and a b =
     (if a = Some False \<or> b = Some False then Some False
      else if a = None \<or> b = None then None else Some True)"

definition c_in :: "'a option \<Rightarrow> 'a list \<Rightarrow> tri" where
  "c_in x xs = (case x of None \<Rightarrow> None | Some v \<Rightarrow> Some (v \<in> set xs))"

definition c_is_null :: "'a option \<Rightarrow> tri" where
  "c_is_null x = Some (x = None)"

definition c_toLower :: "string option \<Rightarrow> string option" where
  "c_toLower x = map_option lower x"

definition c_contains :: "string option \<Rightarrow> string option \<Rightarrow> tri" where
  "c_contains s q =
     (case s of None \<Rightarrow> None
      | Some s' \<Rightarrow> (case q of None \<Rightarrow> None | Some q' \<Rightarrow> Some (sublist q' s')))"

definition c_index0 :: "'a list option \<Rightarrow> 'a option" where
  "c_index0 xs = (case xs of None \<Rightarrow> None | Some [] \<Rightarrow> None | Some (x # _) \<Rightarrow> Some x)"

definition c_where :: "tri \<Rightarrow> bool" where
  "c_where t = (t = Some True)"

section \<open>Errors\<close>

text \<open>
  A Python exception that a handler catches and reports, and the HTTP error a handler
  answers with. The detail of a 500 answer is a fixed text followed by \<open>str(e)\<close>; the
  exception is kept instead of its text.
\<close>

datatype py_exception =
    ValidationError
  | Neo4jError
  | ServiceUnavailable
  | MultipleResultsFound
  | ValueError string
  | Exception string

datatype detail = Detail string | DetailOf string py_exception

datatype http_exception = HTTPException (status_code: nat) (http_detail: detail)

section \<open>Relational store: users\<close>

text \<open>
  The user row, with the columns the code reads and writes (\<open>schemas/user.py\<close>,
  \<open>UserInDB\<close>); the two timestamps are set by the database and play no part here.
\<close>

record user =
  user_id :: nat
  email :: string
  hashed_password :: string
  full_name :: "string option"
  is_active :: bool
  neo4j_person_id :: "string option"
  is_in_graph :: bool

type_synonym db = "user list"

text \<open>
  \<open>get_user_by_email\<close>: \<open>scalar_one_or_none\<close> gives the row, \<open>None\<close> when there is
  none, and raises when there are several.
\<close>

definition get_user_by_email :: "db \<Rightarrow> string \<Rightarrow> py_exception + user option" where
  "get_user_by_email d e =
     (case filter (\<lambda>u. email u = e) d of
        [] \<Rightarrow> Inr None
      | [u] \<Rightarrow> Inr (Some u)
      | _ \<Rightarrow> Inl MultipleResultsFound)"

section \<open>Credentials\<close>

text \<open>
  \<open>jwt.decode\<close> checks signature and expiry and gives the payload, or raises
  \<open>JWTError\<close> (\<open>None\<close> here); it is a parameter. The payload's \<open>sub\<close> may be absent.
\<close>

datatype payload = Payload (sub: "string option")

type_synonym jwt_decode = "string \<Rightarrow> payload option"

datatype token_data = TokenData (token_email: string)

definition verify_token :: "jwt_decode \<Rightarrow> string \<Rightarrow> token_data option" where
  "verify_token dec token =
     (case dec token of
        None \<Rightarrow> None
      | Some p \<Rightarrow> (case sub p of None \<Rightarrow> None | Some e \<Rightarrow> Some (TokenData e)))"

text \<open>
  \<open>get_current_user\<close> (the same function in \<open>api/graph.py\<close>, \<open>api/persons.py\<close> and
  \<open>api/users.py\<close>). An exception of the lookup is not caught there and leaves the
  handler as the framework's 500.
\<close>

definition get_current_user :: "jwt_decode \<Rightarrow> db \<Rightarrow> string \<Rightarrow> http_exception + user" where
  "get_current_user dec d token =
     (case verify_token dec token of
        None \<Rightarrow> Inl (HTTPException 401 (Detail ''Could not validate credentials''))
      | Some td \<Rightarrow>
          (case get_user_by_email d (token_email td) of
             Inl e \<Rightarrow> Inl (HTTPException 500 (Detail ''Internal Server Error''))
           | Inr None \<Rightarrow> Inl (HTTPException 404 (Detail ''User not found''))
           | Inr (Some u) \<Rightarrow>
               if \<not> is_active u then Inl (HTTPException 400 (Detail ''Inactive user''))
               else Inr u))"

text \<open>\<open>get_current_user_or_none\<close>: the whole body is inside \<open>try ... except Exception\<close>.\<close>

definition get_current_user_or_none :: "jwt_decode \<Rightarrow> db \<Rightarrow> string \<Rightarrow> user option" where
  "get_current_user_or_none dec d token =
     (case verify_token dec token of
        None \<Rightarrow> None
      | Some td \<Rightarrow>
          (case get_user_by_email d (token_email td) of
             Inl e \<Rightarrow> None
           | Inr None \<Rightarrow> None
           | Inr (Some u) \<Rightarrow> if \<not> is_active u then None else Some u))"

text \<open>
  Both functions receive the token from \<open>Depends(oauth2_scheme)\<close>, and
  \<open>oauth2_scheme = OAuth2PasswordBearer(tokenUrl="/api/auth/login")\<close> (\<open>api/auth.py\<close>)
  keeps the class's default \<open>auto_error=True\<close>: a request with no \<open>Authorization\<close>
  header, or with a scheme other than \<open>bearer\<close>, is answered 401 by the dependency
  itself, before the body of the function that asked for the token runs.
\<close>

record request =
  authorization :: "string option"

definition get_authorization_scheme_param :: "string option \<Rightarrow> string \<times> string" where
  "get_authorization_scheme_param h =
     (case h of None \<Rightarrow> ([], []) | Some a \<Rightarrow> if a = [] then ([], []) else partition_space a)"

definition oauth2_scheme :: "request \<Rightarrow> http_exception + string" where
  "oauth2_scheme req =
     (let (scheme, param) = get_authorization_scheme_param (authorization req) in
      if authorization req = None \<or> authorization req = Some [] \<or> lower scheme \<noteq> ''bearer''
      then Inl (HTTPException 401 (Detail ''Not authenticated''))
      else Inr param)"

text \<open>The two dependency chains an endpoint declares.\<close>

definition depends_get_current_user ::
  "jwt_decode \<Rightarrow> db \<Rightarrow> request \<Rightarrow> http_exception + user" where
  "depends_get_current_user dec d req =
     (case oauth2_scheme req of Inl e \<Rightarrow> Inl e | Inr token \<Rightarrow> get_current_user dec d token)"

definition depends_get_current_user_or_none ::
  "jwt_decode \<Rightarrow> db \<Rightarrow> request \<Rightarrow> http_exception + user option" where
  "depends_get_current_user_or_none dec d req =
     (case oauth2_scheme req of
        Inl e \<Rightarrow> Inl e
      | Inr token \<Rightarrow> Inr (get_current_user_or_none dec d token))"

section \<open>Graph store\<close>

text \<open>
  The properties of a \<open>Person\<close> node, each absent (\<open>None\<close>) or present with the type
  \<open>models/entity.py\<close> declares for it. Neo4j keeps no null property, so absent and
  null are the same.
\<close>

record person =
  p_id :: "string option"
  p_name :: "string option"
  p_birth_year :: "int option"
  p_death_year :: "int option"
  p_occupation :: "string list option"
  p_specialty :: "string list option"
  p_hobby :: "string list option"
  p_achievement :: "string option"
  p_female_experience :: "string list option"
  p_type :: "string option"
  p_frequency :: "int option"
  p_degree :: "int option"
  p_description :: "string option"
  p_human_readable_id :: "string option"
  p_knowledge_source :: "string option"
  p_source_type :: "string option"
  p_created_by :: "string option"
  p_is_verified :: "bool option"
  p_created_at :: "string option"

record rel_props =
  r_id :: "string option"
  r_type :: "string option"
  r_description :: "string option"
  r_strength :: "int option"
  r_source_type :: "string option"
  r_created_by :: "string option"
  r_created_at :: "string option"

text \<open>
  A node has the identity the store gave it (\<open>element_id\<close>), labels and properties; a
  relationship has its own identity, its type (such as \<open>RELATED_TO\<close>), the identities of
  its start and end nodes, and properties. \<open>available\<close> is false when the store cannot
  be reached: every query then raises. \<open>next_element\<close> is the counter the store names a
  new node after.
\<close>

record node =
  element_id :: string
  labels :: "string list"
  node_props :: person

record relationship =
  rel_element_id :: string
  rel_type :: string
  start_node :: string
  end_node :: string
  rel_data :: rel_props

record graph =
  available :: bool
  nodes :: "node list"
  relationships :: "relationship list"
  next_element :: nat

definition is_person :: "node \<Rightarrow> bool" where
  "is_person n = (''Person'' \<in> set (labels n))"

text \<open>\<open>MATCH (p:Person)\<close>: the rows, in the order of the store.\<close>

definition match_person :: "graph \<Rightarrow> node list" where
  "match_person g = filter is_person (nodes g)"

text \<open>\<open>MATCH (p:Person {id: $id})\<close>.\<close>

definition match_person_id :: "graph \<Rightarrow> string \<Rightarrow> node list" where
  "match_person_id g i = filter (\<lambda>n. p_id (node_props n) = Some i) (match_person g)"

text \<open>
  \<open>MATCH (a:Person)-[r]->(b:Person)\<close>: one row for each relationship whose start and
  end nodes are both labelled \<open>Person\<close>.
\<close>

definition find_node :: "graph \<Rightarrow> string \<Rightarrow> node option" where
  "find_node g e = find (\<lambda>n. element_id n = e) (nodes g)"

definition match_edge_row :: "graph \<Rightarrow> relationship \<Rightarrow> (node \<times> relationship \<times> node) list" where
  "match_edge_row g r =
     (case find_node g (start_node r) of
        None \<Rightarrow> []
      | Some a \<Rightarrow>
          (case find_node g (end_node r) of
             None \<Rightarrow> []
           | Some b \<Rightarrow> if is_person a \<and> is_person b then [(a, r, b)] else []))"

definition match_edges :: "graph \<Rightarrow> (node \<times> relationship \<times> node) list" where
  "match_edges g = concat (map (match_edge_row g) (relationships g))"

text \<open>\<open>SKIP $skip LIMIT $limit\<close>: a negative parameter is an error of the query.\<close>

definition skip_limit :: "int \<Rightarrow> int \<Rightarrow> 'a list \<Rightarrow> py_exception + 'a list" where
  "skip_limit s l rows =
     (if s < 0 \<or> l < 0 then Inl Neo4jError else Inr (take (nat l) (drop (nat s) rows)))"

text \<open>\<open>neo4j_db.execute_query\<close> on a read query whose rows are \<open>rows\<close>.\<close>

definition execute_query :: "graph \<Rightarrow> (py_exception + 'a list) \<Rightarrow> py_exception + 'a list" where
  "execute_query g rows = (if available g then rows else Inl ServiceUnavailable)"

section \<open>Visibility policy\<close>

definition public_types :: "string list" where
  "public_types = [''system'', ''public'']"

text \<open>\<open>WHERE p.source_type IN ['system', 'public'] OR p.source_type IS NULL\<close>.\<close>

definition anon_node_where :: "person \<Rightarrow> tri" where
  "anon_node_where p =
     c_or (c_in (p_source_type p) public_types) (c_is_null (p_source_type p))"

text \<open>
  The edge filter of the anonymous branch, as Cypher reads it:
  \<^verbatim>\<open>
  WHERE a.source_type IN ['system', 'public'] OR a.source_type IS NULL
    AND b.source_type IN ['system', 'public'] OR b.source_type IS NULL
    AND (r.source_type IN ['system', 'public'] OR r.source_type IS NULL)
  \<close>
  is \<open>A1 OR (A2 AND B1) OR (B2 AND (R1 OR R2))\<close>.
\<close>

definition anon_edge_where :: "person \<Rightarrow> rel_props \<Rightarrow> person \<Rightarrow> tri" where
  "anon_edge_where a r b =
     c_or
       (c_or
          (c_in (p_source_type a) public_types)
          (c_and (c_is_null (p_source_type a)) (c_in (p_source_type b) public_types)))
       (c_and
          (c_is_null (p_source_type b))
          (c_or (c_in (r_source_type r) public_types) (c_is_null (r_source_type r))))"

text \<open>The row \<open>RETURN a.id as source_id, b.id as target_id, r\<close>.\<close>

record edge_row =
  source_id :: "string option"
  target_id :: "string option"
  row_r :: relationship

definition return_edge :: "node \<times> relationship \<times> node \<Rightarrow> edge_row" where
  "return_edge t =
     (case t of (a, r, b) \<Rightarrow>
        \<lparr>source_id = p_id (node_props a), target_id = p_id (node_props b), row_r = r\<rparr>)"

text \<open>The two pairs of queries of \<open>get_graph_network\<close> and \<open>get_optimized_graph_network\<close>.\<close>

definition nodes_query :: "graph \<Rightarrow> bool \<Rightarrow> int \<Rightarrow> int \<Rightarrow> py_exception + node list" where
  "nodes_query g anonymous skip_nodes limit_nodes =
     (if anonymous
      then skip_limit skip_nodes limit_nodes
             (filter (\<lambda>n. c_where (anon_node_where (node_props n))) (match_person g))
      else skip_limit skip_nodes limit_nodes (match_person g))"

definition edges_query :: "graph \<Rightarrow> bool \<Rightarrow> int \<Rightarrow> int \<Rightarrow> py_exception + edge_row list" where
  "edges_query g anonymous skip limit =
     (if anonymous
      then skip_limit skip limit
             (map return_edge
                (filter (\<lambda>t. case t of (a, r, b) \<Rightarrow>
                           c_where (anon_edge_where (node_props a) (rel_data r) (node_props b)))
                   (match_edges g)))
      else skip_limit skip limit (map return_edge (match_edges g)))"

section \<open>Response shapes (\<open>models/entity.py\<close>)\<close>

text \<open>A value a handler puts into a dictionary or returns as its body.\<close>

datatype json =
    JNull
  | JStr string
  | JInt int
  | JBool bool
  | JList "json list"
  | JDict "(string \<times> json) list"

definition jstr :: "string option \<Rightarrow> json" where
  "jstr x = (case x of None \<Rightarrow> JNull | Some v \<Rightarrow> JStr v)"

definition jint :: "int option \<Rightarrow> json" where
  "jint x = (case x of None \<Rightarrow> JNull | Some v \<Rightarrow> JInt v)"

definition jstrs :: "string list option \<Rightarrow> json" where
  "jstrs x = (case x of None \<Rightarrow> JNull | Some v \<Rightarrow> JList (map JStr v))"

text \<open>\<open>d.get(key, default)\<close>.\<close>

definition get_default :: "'a option \<Rightarrow> 'a \<Rightarrow> 'a" where
  "get_default x dflt = (case x of None \<Rightarrow> dflt | Some v \<Rightarrow> v)"

text \<open>Python's truth value of an optional string and of an optional number.\<close>

definition truthy_str :: "string option \<Rightarrow> bool" where
  "truthy_str x = (case x of None \<Rightarrow> False | Some v \<Rightarrow> v \<noteq> [])"

definition truthy_int :: "int option \<Rightarrow> bool" where
  "truthy_int x = (case x of None \<Rightarrow> False | Some v \<Rightarrow> v \<noteq> 0)"

record graph_node =
  gn_id :: string
  gn_label :: string
  gn_type :: string
  gn_properties :: "(string \<times> json) list"

record graph_edge =
  ge_id :: string
  ge_source :: string
  ge_target :: string
  ge_label :: string
  ge_type :: string
  ge_properties :: "(string \<times> json) list"

record graph_data =
  gd_nodes :: "graph_node list"
  gd_edges :: "graph_edge list"

text \<open>
  \<open>GraphNode(id=..., label=..., type=..., properties=...)\<close>: \<open>id\<close> and \<open>label\<close> are
  declared \<open>str\<close>, so the model's validation raises when either is \<open>None\<close>. The same
  holds for \<open>id\<close>, \<open>source\<close>, \<open>target\<close> and \<open>label\<close> of \<open>GraphEdge\<close>.
\<close>

definition GraphNode ::
  "string option \<Rightarrow> string option \<Rightarrow> string \<Rightarrow> (string \<times> json) list \<Rightarrow> py_exception + graph_node" where
  "GraphNode i l t props =
     (case i of
        None \<Rightarrow> Inl ValidationError
      | Some i' \<Rightarrow>
          (case l of
             None \<Rightarrow> Inl ValidationError
           | Some l' \<Rightarrow> Inr \<lparr>gn_id = i', gn_label = l', gn_type = t, gn_properties = props\<rparr>))"

definition GraphEdge ::
  "string option \<Rightarrow> string option \<Rightarrow> string option \<Rightarrow> string option \<Rightarrow> string
     \<Rightarrow> (string \<times> json) list \<Rightarrow> py_exception + graph_edge" where
  "GraphEdge i s t l ty props =
     (case (i, s, t, l) of
        (Some i', Some s', Some t', Some l') \<Rightarrow>
          Inr \<lparr>ge_id = i', ge_source = s', ge_target = t', ge_label = l', ge_type = ty,
               ge_properties = props\<rparr>
      | _ \<Rightarrow> Inl ValidationError)"

text \<open>The \<open>properties\<close> dictionary every node-returning handler of \<open>api/graph.py\<close> builds.\<close>

definition node_properties :: "person \<Rightarrow> (string \<times> json) list" where
  "node_properties p =
     [(''name'', jstr (p_name p)),
      (''birth_year'', jint (p_birth_year p)),
      (''death_year'', jint (p_death_year p)),
      (''occupation'', jstrs (p_occupation p)),
      (''specialty'', jstrs (p_specialty p)),
      (''hobby'', jstrs (p_hobby p)),
      (''achievement'', jstr (p_achievement p)),
      (''female_experience'', jstrs (p_female_experience p)),
      (''type'', jstr (p_type p)),
      (''frequency'', jint (p_frequency p)),
      (''degree'', jint (p_degree p)),
      (''description'', jstr (p_description p)),
      (''human_readable_id'', jstr (p_human_readable_id p)),
      (''knowledge_source'', jstr (p_knowledge_source p)),
      (''source_type'', jstr (p_source_type p)),
      (''created_by'', jstr (p_created_by p)),
      (''is_verified'', JBool (get_default (p_is_verified p) False)),
      (''created_at'', jstr (p_created_at p))]"

text \<open>
  The \<open>properties\<close> dictionary of an edge. \<open>rel_data.get("type", ...)\<close> reads the
  property called \<open>type\<close>, not the type of the relationship.
\<close>

definition edge_properties :: "rel_props \<Rightarrow> (string \<times> json) list" where
  "edge_properties r =
     [(''type'', JStr (get_default (r_type r) ''RELATED_TO'')),
      (''description'', jstr (r_description r)),
      (''strength'', JInt (get_default (r_strength r) 1)),
      (''source_type'', JStr (get_default (r_source_type r) ''user_created'')),
      (''created_by'', jstr (r_created_by r)),
      (''created_at'', jstr (r_created_at r))]"

definition unknown_label :: string where
  "unknown_label = [CHR 0xE6, CHR 0x9C, CHR 0xAA, CHR 0xE7, CHR 0x9F, CHR 0xA5]"

section \<open>\<open>GET /graph/network\<close>\<close>

text \<open>
  One round of the node loop of \<open>get_graph_network\<close>, for the \<open>i\<close>-th row, with \<open>k\<close>
  draws made so far; it gives the node and the number of draws made after it.
\<close>

definition network_node ::
  "uuid_source \<Rightarrow> nat \<Rightarrow> nat \<Rightarrow> person \<Rightarrow> (py_exception + graph_node) \<times> nat" where
  "network_node rnd k i person_data =
     (let name = p_name person_data;
          label = (case name of Some n \<Rightarrow> n | None \<Rightarrow> unknown_label);
          (node_id, k') =
            (case p_id person_data of
               Some v \<Rightarrow> (v, k)
             | None \<Rightarrow>
                 (case name of
                    None \<Rightarrow> (''node-'' @ str_nat i @ ''-'' @ hex8 (rnd k), k + 1)
                  | Some n \<Rightarrow>
                      if n \<noteq> []
                      then (replace_space_dash (lower n) @ ''-'' @ hex8 (rnd (k + 1)), k + 2)
                      else (''node-'' @ str_nat i @ ''-'' @ hex8 (rnd k), k + 1)))
      in (GraphNode (Some node_id) (Some label) ''person'' (node_properties person_data), k'))"

fun network_nodes ::
  "uuid_source \<Rightarrow> nat \<Rightarrow> nat \<Rightarrow> person list \<Rightarrow> (py_exception + graph_node list) \<times> nat" where
  "network_nodes rnd k i [] = (Inr [], k)"
| "network_nodes rnd k i (p # ps) =
     (case network_node rnd k i p of
        (Inl e, k') \<Rightarrow> (Inl e, k')
      | (Inr n, k') \<Rightarrow>
          (case network_nodes rnd k' (Suc i) ps of
             (Inl e, k'') \<Rightarrow> (Inl e, k'')
           | (Inr ns, k'') \<Rightarrow> (Inr (n # ns), k'')))"

text \<open>
  One round of the edge loop. The default of \<open>rel_data.get("id", str(uuid.uuid4()))\<close>
  is computed whether or not it is used, so that draw is always made.
\<close>

definition network_edge ::
  "uuid_source \<Rightarrow> nat \<Rightarrow> nat \<Rightarrow> edge_row \<Rightarrow> (py_exception + graph_edge) \<times> nat" where
  "network_edge rnd k i record =
     (let rel = rel_data (row_r record);
          (src, k1) =
            (case source_id record of
               Some v \<Rightarrow> (v, k)
             | None \<Rightarrow> (''source-'' @ str_nat i @ ''-'' @ hex8 (rnd k), k + 1));
          (tgt, k2) =
            (case target_id record of
               Some v \<Rightarrow> (v, k1)
             | None \<Rightarrow> (''target-'' @ str_nat i @ ''-'' @ hex8 (rnd k1), k1 + 1))
      in (GraphEdge (Some (get_default (r_id rel) (uuid_str (rnd k2)))) (Some src) (Some tgt)
            (Some (get_default (r_type rel) ''RELATED_TO'')) ''relates_to'' (edge_properties rel),
          k2 + 1))"

fun network_edges ::
  "uuid_source \<Rightarrow> nat \<Rightarrow> nat \<Rightarrow> edge_row list \<Rightarrow> (py_exception + graph_edge list) \<times> nat" where
  "network_edges rnd k i [] = (Inr [], k)"
| "network_edges rnd k i (r # rs) =
     (case network_edge rnd k i r of
        (Inl e, k') \<Rightarrow> (Inl e, k')
      | (Inr x, k') \<Rightarrow>
          (case network_edges rnd k' (Suc i) rs of
             (Inl e, k'') \<Rightarrow> (Inl e, k'')
           | (Inr xs, k'') \<Rightarrow> (Inr (x # xs), k'')))"

text \<open>
  The body of \<open>get_graph_network\<close> inside its \<open>try\<close>, then the handler: every exception
  becomes a 500.
\<close>

definition get_graph_network_body ::
  "graph \<Rightarrow> uuid_source \<Rightarrow> user option \<Rightarrow> int \<Rightarrow> int \<Rightarrow> int \<Rightarrow> int \<Rightarrow> py_exception + graph_data" where
  "get_graph_network_body g rnd current_user skip_nodes limit_nodes skip_edges limit_edges =
     (case execute_query g (nodes_query g (current_user = None) skip_nodes limit_nodes) of
        Inl e \<Rightarrow> Inl e
      | Inr nodes_result \<Rightarrow>
          (case network_nodes rnd 0 0 (map node_props nodes_result) of
             (Inl e, k) \<Rightarrow> Inl e
           | (Inr ns, k) \<Rightarrow>
               (case execute_query g (edges_query g (current_user = None) skip_edges limit_edges) of
                  Inl e \<Rightarrow> Inl e
                | Inr edges_result \<Rightarrow>
                    (case network_edges rnd k 0 edges_result of
                       (Inl e, k') \<Rightarrow> Inl e
                     | (Inr es, k') \<Rightarrow> Inr \<lparr>gd_nodes = ns, gd_edges = es\<rparr>))))"

definition get_graph_network ::
  "graph \<Rightarrow> uuid_source \<Rightarrow> user option \<Rightarrow> int \<Rightarrow> int \<Rightarrow> int \<Rightarrow> int \<Rightarrow> http_exception + graph_data" where
  "get_graph_network g rnd current_user skip_nodes limit_nodes skip_edges limit_edges =
     (case get_graph_network_body g rnd current_user skip_nodes limit_nodes skip_edges limit_edges of
        Inl e \<Rightarrow> Inl (HTTPException 500 (DetailOf ''Failed to retrieve graph network: '' e))
      | Inr d \<Rightarrow> Inr d)"

section \<open>\<open>GET /graph/nodes\<close>, \<open>GET /graph/edges\<close>, \<open>GET /graph/nodes/search\<close>\<close>

text \<open>A \<open>for\<close> loop that builds one item for each row and stops at the first exception.\<close>

fun for_each :: "('a \<Rightarrow> py_exception + 'b) \<Rightarrow> 'a list \<Rightarrow> py_exception + 'b list" where
  "for_each f [] = Inr []"
| "for_each f (x # xs) =
     (case f x of
        Inl e \<Rightarrow> Inl e
      | Inr y \<Rightarrow> (case for_each f xs of Inl e \<Rightarrow> Inl e | Inr ys \<Rightarrow> Inr (y # ys)))"

text \<open>
  The node these handlers build: \<open>id=person_data.get("id")\<close> and
  \<open>label=person_data.get("name")\<close>, with no fallback.
\<close>

definition plain_node :: "person \<Rightarrow> py_exception + graph_node" where
  "plain_node person_data =
     GraphNode (p_id person_data) (p_name person_data) ''person'' (node_properties person_data)"

definition get_graph_nodes :: "graph \<Rightarrow> int \<Rightarrow> int \<Rightarrow> http_exception + graph_node list" where
  "get_graph_nodes g skip limit =
     (case execute_query g (skip_limit skip limit (match_person g)) of
        Inl e \<Rightarrow> Inl (HTTPException 500 (DetailOf ''Failed to retrieve graph nodes: '' e))
      | Inr result \<Rightarrow>
          (case for_each plain_node (map node_props result) of
             Inl e \<Rightarrow> Inl (HTTPException 500 (DetailOf ''Failed to retrieve graph nodes: '' e))
           | Inr ns \<Rightarrow> Inr ns))"

definition get_graph_edges ::
  "graph \<Rightarrow> uuid_source \<Rightarrow> int \<Rightarrow> int \<Rightarrow> http_exception + graph_edge list" where
  "get_graph_edges g rnd skip limit =
     (case execute_query g (skip_limit skip limit (map return_edge (match_edges g))) of
        Inl e \<Rightarrow> Inl (HTTPException 500 (DetailOf ''Failed to retrieve graph edges: '' e))
      | Inr result \<Rightarrow>
          (case network_edges rnd 0 0 result of
             (Inl e, k) \<Rightarrow> Inl (HTTPException 500 (DetailOf ''Failed to retrieve graph edges: '' e))
           | (Inr es, k) \<Rightarrow> Inr es))"

text \<open>
  The filter of the search query:
  \<^verbatim>\<open>
  WHERE toLower(p.name) CONTAINS toLower($query)
     OR toLower(p.occupation[0]) CONTAINS toLower($query)
     OR toLower(p.specialty[0]) CONTAINS toLower($query)
     OR toLower(p.hobby[0]) CONTAINS toLower($query)
     OR toLower(p.achievement) CONTAINS toLower($query)
     OR toLower(p.description) CONTAINS toLower($query)
     OR toLower(p.type) CONTAINS toLower($query)
  \<close>
\<close>

definition search_where :: "string \<Rightarrow> person \<Rightarrow> tri" where
  "search_where query p =
     (let q = c_toLower (Some query) in
      c_or (c_or (c_or (c_or (c_or (c_or
        (c_contains (c_toLower (p_name p)) q)
        (c_contains (c_toLower (c_index0 (p_occupation p))) q))
        (c_contains (c_toLower (c_index0 (p_specialty p))) q))
        (c_contains (c_toLower (c_index0 (p_hobby p))) q))
        (c_contains (c_toLower (p_achievement p)) q))
        (c_contains (c_toLower (p_description p)) q))
        (c_contains (c_toLower (p_type p)) q))"

text \<open>\<open>MATCH (p:Person) WHERE ... RETURN p LIMIT 50\<close>.\<close>

definition search_query :: "graph \<Rightarrow> string \<Rightarrow> py_exception + node list" where
  "search_query g query =
     Inr (take 50 (filter (\<lambda>n. c_where (search_where query (node_props n))) (match_person g)))"

definition search_graph_nodes :: "graph \<Rightarrow> string \<Rightarrow> http_exception + graph_node list" where
  "search_graph_nodes g q =
     (case execute_query g (search_query g q) of
        Inl e \<Rightarrow> Inl (HTTPException 500 (DetailOf ''Failed to search graph nodes: '' e))
      | Inr result \<Rightarrow>
          (case for_each plain_node (map node_props result) of
             Inl e \<Rightarrow> Inl (HTTPException 500 (DetailOf ''Failed to search graph nodes: '' e))
           | Inr ns \<Rightarrow> Inr ns))"

section \<open>\<open>GET /graph/nodes/{node_id}/connections\<close>\<close>

text \<open>
  \<open>MATCH (p:Person {id: $node_id})-[r:RELATED_TO]-(other:Person)\<close>: the pattern has no
  direction, so a relationship of type \<open>RELATED_TO\<close> gives a row when \<open>p\<close> is its start
  and when \<open>p\<close> is its end (once when it is both).
\<close>

definition other_end :: "graph \<Rightarrow> node \<Rightarrow> relationship \<Rightarrow> string \<Rightarrow> (node \<times> relationship \<times> node) list" where
  "other_end g p r e =
     (case find_node g e of
        None \<Rightarrow> []
      | Some other \<Rightarrow> if is_person other then [(p, r, other)] else [])"

definition related_rows :: "graph \<Rightarrow> node \<Rightarrow> relationship \<Rightarrow> (node \<times> relationship \<times> node) list" where
  "related_rows g p r =
     (if rel_type r \<noteq> ''RELATED_TO'' then []
      else (if start_node r = element_id p then other_end g p r (end_node r) else [])
         @ (if end_node r = element_id p \<and> start_node r \<noteq> element_id p
            then other_end g p r (start_node r) else []))"

definition match_related :: "graph \<Rightarrow> string \<Rightarrow> (node \<times> relationship \<times> node) list" where
  "match_related g node_id =
     concat (map (\<lambda>p. concat (map (related_rows g p) (relationships g)))
                 (match_person_id g node_id))"

text \<open>
  The filter of the anonymous branch,
  \<^verbatim>\<open>
  WHERE p.source_type IN ['system', 'public'] OR p.source_type IS NULL
    AND other.source_type IN ['system', 'public'] OR other.source_type IS NULL
  \<close>
  which Cypher reads as \<open>P1 OR (P2 AND O1) OR O2\<close>.
\<close>

definition anon_connection_where :: "person \<Rightarrow> person \<Rightarrow> tri" where
  "anon_connection_where p other =
     c_or
       (c_or
          (c_in (p_source_type p) public_types)
          (c_and (c_is_null (p_source_type p)) (c_in (p_source_type other) public_types)))
       (c_is_null (p_source_type other))"

text \<open>
  The row \<open>RETURN other.id as target_id, r.strength as strength, r.description as
  description\<close>, and the query with its \<open>LIMIT 10\<close>.
\<close>

record connection_row =
  conn_target_id :: "string option"
  conn_strength :: "int option"
  conn_description :: "string option"

definition return_connection :: "node \<times> relationship \<times> node \<Rightarrow> connection_row" where
  "return_connection t =
     (case t of (p, r, other) \<Rightarrow>
        \<lparr>conn_target_id = p_id (node_props other),
         conn_strength = r_strength (rel_data r),
         conn_description = r_description (rel_data r)\<rparr>)"

definition connections_query :: "graph \<Rightarrow> bool \<Rightarrow> string \<Rightarrow> py_exception + connection_row list" where
  "connections_query g anonymous node_id =
     (if anonymous
      then Inr (take 10 (map return_connection
             (filter (\<lambda>t. case t of (p, r, other) \<Rightarrow>
                        c_where (anon_connection_where (node_props p) (node_props other)))
                (match_related g node_id))))
      else Inr (take 10 (map return_connection (match_related g node_id))))"

definition connection_dict :: "connection_row \<Rightarrow> json" where
  "connection_dict record =
     JDict [(''target_id'', jstr (conn_target_id record)),
            (''strength'', jint (conn_strength record)),
            (''description'', jstr (conn_description record))]"

text \<open>
  The handler function: what it returns is the dictionary
  \<open>{"connections": connections}\<close>.
\<close>

definition get_node_connections :: "graph \<Rightarrow> user option \<Rightarrow> string \<Rightarrow> http_exception + json" where
  "get_node_connections g current_user node_id =
     (case execute_query g (connections_query g (current_user = None) node_id) of
        Inl e \<Rightarrow> Inl (HTTPException 500 (DetailOf ''Failed to retrieve node connections: '' e))
      | Inr result \<Rightarrow> Inr (JDict [(''connections'', JList (map connection_dict result))]))"

text \<open>
  The route is declared with \<open>response_model=List[dict]\<close>: the framework validates what
  the handler returned against that type before it answers, outside the handler's
  \<open>try\<close>. A list of dictionaries passes; anything else is the framework's 500.
\<close>

definition is_dict :: "json \<Rightarrow> bool" where
  "is_dict v = (case v of JDict _ \<Rightarrow> True | _ \<Rightarrow> False)"

definition response_model_List_dict :: "json \<Rightarrow> http_exception + json list" where
  "response_model_List_dict v =
     (case v of
        JList xs \<Rightarrow>
          if list_all is_dict xs then Inr xs
          else Inl (HTTPException 500 (Detail ''Internal Server Error''))
      | _ \<Rightarrow> Inl (HTTPException 500 (Detail ''Internal Server Error'')))"

definition route_get_node_connections ::
  "graph \<Rightarrow> user option \<Rightarrow> string \<Rightarrow> http_exception + json list" where
  "route_get_node_connections g current_user node_id =
     (case get_node_connections g current_user node_id of
        Inl e \<Rightarrow> Inl e
      | Inr v \<Rightarrow> response_model_List_dict v)"

section \<open>\<open>GET /graph/network/optimized\<close>\<close>

record optimized_person_node =
  on_id :: string
  on_name :: string
  on_birth_year :: "int option"
  on_death_year :: "int option"
  on_industry :: "string option"
  on_occupation :: "string option"
  on_achievement :: "string option"
  on_description :: "string option"
  on_source_type :: string
  on_type :: "string option"
  on_years :: "string option"
  on_created_by :: "string option"
  on_is_verified :: bool
  on_created_at :: "string option"

record optimized_graph_edge =
  oe_id :: string
  oe_source :: string
  oe_target :: string
  oe_label :: string
  oe_strength :: int
  oe_description :: "string option"

record optimized_graph_data =
  od_nodes :: "optimized_person_node list"
  od_edges :: "optimized_graph_edge list"

definition to_present :: string where
  "to_present = [CHR 0xE8, CHR 0x87, CHR 0xB3, CHR 0xE4, CHR 0xBB, CHR 0x8A]"

text \<open>
  \<open>OptimizedPersonNode.from_neo4j_node\<close>. A property here is a list of strings or
  absent, so the \<open>isinstance(..., str)\<close> branches are not reached.
\<close>

definition first_of :: "string list option \<Rightarrow> string option" where
  "first_of xs = (case xs of None \<Rightarrow> None | Some [] \<Rightarrow> None | Some (x # _) \<Rightarrow> Some x)"

definition format_years :: "int option \<Rightarrow> int option \<Rightarrow> string option" where
  "format_years birth_year death_year =
     (if truthy_int birth_year \<and> truthy_int death_year
      then Some (str_int (get_default birth_year 0) @ ''-'' @ str_int (get_default death_year 0))
      else if truthy_int birth_year
      then Some (str_int (get_default birth_year 0) @ ''-'' @ to_present)
      else None)"

definition from_neo4j_node :: "uuid_source \<Rightarrow> person \<Rightarrow> optimized_person_node" where
  "from_neo4j_node rnd person_data =
     \<lparr>on_id = get_default (p_id person_data) (uuid_str (rnd 0)),
      on_name = get_default (p_name person_data) unknown_label,
      on_birth_year = p_birth_year person_data,
      on_death_year = p_death_year person_data,
      on_industry = first_of (p_specialty person_data),
      on_occupation = first_of (p_occupation person_data),
      on_achievement = p_achievement person_data,
      on_description = p_description person_data,
      on_source_type = get_default (p_source_type person_data) ''system'',
      on_type = p_type person_data,
      on_years = format_years (p_birth_year person_data) (p_death_year person_data),
      on_created_by = p_created_by person_data,
      on_is_verified = get_default (p_is_verified person_data) False,
      on_created_at = p_created_at person_data\<rparr>"

text \<open>
  The record of the store is a node object: the handler copies its properties and
  overwrites \<open>id\<close> with the node's \<open>element_id\<close>.
\<close>

definition optimized_node :: "uuid_source \<Rightarrow> node \<Rightarrow> optimized_person_node" where
  "optimized_node rnd person_node =
     from_neo4j_node rnd ((node_props person_node)\<lparr>p_id := Some (element_id person_node)\<rparr>)"

text \<open>
  \<open>OptimizedGraphEdge.from_neo4j_relationship\<close> on a relationship object: \<open>id\<close> is its
  \<open>element_id\<close> and \<open>type\<close> is the type of the relationship.
\<close>

definition from_neo4j_relationship :: "relationship \<Rightarrow> string \<Rightarrow> string \<Rightarrow> optimized_graph_edge" where
  "from_neo4j_relationship r src tgt =
     \<lparr>oe_id = rel_element_id r,
      oe_source = src,
      oe_target = tgt,
      oe_label = rel_type r,
      oe_strength = get_default (r_strength (rel_data r)) 1,
      oe_description = r_description (rel_data r)\<rparr>"

definition optimized_edges :: "edge_row list \<Rightarrow> optimized_graph_edge list" where
  "optimized_edges rows =
     concat (map (\<lambda>record.
        if truthy_str (source_id record) \<and> truthy_str (target_id record)
        then [from_neo4j_relationship (row_r record)
                (get_default (source_id record) []) (get_default (target_id record) [])]
        else []) rows)"

definition get_optimized_graph_network ::
  "graph \<Rightarrow> uuid_source \<Rightarrow> user option \<Rightarrow> int \<Rightarrow> int \<Rightarrow> int \<Rightarrow> int
     \<Rightarrow> http_exception + optimized_graph_data" where
  "get_optimized_graph_network g rnd current_user skip_nodes limit_nodes skip_edges limit_edges =
     (case execute_query g (nodes_query g (current_user = None) skip_nodes limit_nodes) of
        Inl e \<Rightarrow>
          Inl (HTTPException 500 (DetailOf ''Failed to retrieve optimized graph network: '' e))
      | Inr nodes_result \<Rightarrow>
          (case execute_query g (edges_query g (current_user = None) skip_edges limit_edges) of
             Inl e \<Rightarrow>
               Inl (HTTPException 500 (DetailOf ''Failed to retrieve optimized graph network: '' e))
           | Inr edges_result \<Rightarrow>
               Inr \<lparr>od_nodes = map (optimized_node rnd) nodes_result,
                    od_edges = optimized_edges edges_result\<rparr>))"

text \<open>
  The four routes with their dependency: the network routes and the neighbour lookup ask
  for \<open>get_current_user_or_none\<close>.
\<close>

definition route_get_graph_network ::
  "jwt_decode \<Rightarrow> db \<Rightarrow> graph \<Rightarrow> uuid_source \<Rightarrow> request \<Rightarrow> int \<Rightarrow> int \<Rightarrow> int \<Rightarrow> int
     \<Rightarrow> http_exception + graph_data" where
  "route_get_graph_network dec d g rnd req skip_nodes limit_nodes skip_edges limit_edges =
     (case depends_get_current_user_or_none dec d req of
        Inl e \<Rightarrow> Inl e
      | Inr current_user \<Rightarrow>
          get_graph_network g rnd current_user skip_nodes limit_nodes skip_edges limit_edges)"

definition route_get_optimized_graph_network ::
  "jwt_decode \<Rightarrow> db \<Rightarrow> graph \<Rightarrow> uuid_source \<Rightarrow> request \<Rightarrow> int \<Rightarrow> int \<Rightarrow> int \<Rightarrow> int
     \<Rightarrow> http_exception + optimized_graph_data" where
  "route_get_optimized_graph_network dec d g rnd req skip_nodes limit_nodes skip_edges limit_edges =
     (case depends_get_current_user_or_none dec d req of
        Inl e \<Rightarrow> Inl e
      | Inr current_user \<Rightarrow>
          get_optimized_graph_network g rnd current_user skip_nodes limit_nodes skip_edges
            limit_edges)"

definition route_get_graph_nodes ::
  "jwt_decode \<Rightarrow> db \<Rightarrow> graph \<Rightarrow> request \<Rightarrow> int \<Rightarrow> int \<Rightarrow> http_exception + graph_node list" where
  "route_get_graph_nodes dec d g req skip limit =
     (case depends_get_current_user dec d req of
        Inl e \<Rightarrow> Inl e
      | Inr current_user \<Rightarrow> get_graph_nodes g skip limit)"

section \<open>Persons (\<open>api/persons.py\<close>)\<close>

text \<open>
  A \<open>datetime\<close> is known by its ISO text (\<open>isoformat\<close>); \<open>datetime.fromisoformat\<close>,
  which raises on a text it cannot read, is a parameter of the handlers that call it.
\<close>

datatype datetime = Datetime (isoformat: string)

type_synonym fromisoformat = "string \<Rightarrow> datetime option"

record person_create =
  pc_name :: string
  pc_birth_year :: "int option"
  pc_death_year :: "int option"
  pc_occupation :: "string list option"
  pc_specialty :: "string list option"
  pc_hobby :: "string list option"
  pc_achievement :: "string option"
  pc_female_experience :: "string list option"
  pc_type :: "string option"
  pc_frequency :: "int option"
  pc_degree :: "int option"
  pc_description :: "string option"
  pc_human_readable_id :: "string option"
  pc_knowledge_source :: "string option"
  pc_source_type :: string
  pc_created_by :: "string option"
  pc_is_verified :: bool

record person_update =
  pu_name :: "string option"
  pu_birth_year :: "int option"
  pu_death_year :: "int option"
  pu_occupation :: "string list option"
  pu_specialty :: "string list option"
  pu_hobby :: "string list option"
  pu_achievement :: "string option"
  pu_female_experience :: "string list option"
  pu_type :: "string option"
  pu_frequency :: "int option"
  pu_degree :: "int option"
  pu_description :: "string option"
  pu_human_readable_id :: "string option"
  pu_knowledge_source :: "string option"
  pu_is_verified :: "bool option"

record person_response =
  pr_id :: string
  pr_name :: string
  pr_birth_year :: "int option"
  pr_death_year :: "int option"
  pr_occupation :: "string list option"
  pr_specialty :: "string list option"
  pr_hobby :: "string list option"
  pr_achievement :: "string option"
  pr_female_experience :: "string list option"
  pr_type :: "string option"
  pr_frequency :: "int option"
  pr_degree :: "int option"
  pr_description :: "string option"
  pr_human_readable_id :: "string option"
  pr_knowledge_source :: "string option"
  pr_source_type :: string
  pr_created_by :: "string option"
  pr_is_verified :: bool
  pr_created_at :: datetime
  pr_updated_at :: "datetime option"

text \<open>
  \<open>PersonResponse(id=..., name=..., ...)\<close> from the properties of a stored node, as
  \<open>get_person\<close>, \<open>get_persons\<close>, \<open>update_person\<close> and \<open>get_my_person\<close> build it:
  \<open>id\<close>, \<open>name\<close>, \<open>source_type\<close> and \<open>created_at\<close> are declared without
  \<open>Optional\<close>, so validation raises when one of them is \<open>None\<close>.
\<close>

definition created_at_of :: "fromisoformat \<Rightarrow> string option \<Rightarrow> py_exception + datetime option" where
  "created_at_of parse x =
     (case x of
        None \<Rightarrow> Inr None
      | Some t \<Rightarrow>
          if t = [] then Inr None
          else (case parse t of
                  None \<Rightarrow> Inl (ValueError ''Invalid isoformat string'')
                | Some dt \<Rightarrow> Inr (Some dt)))"

definition PersonResponse :: "fromisoformat \<Rightarrow> person \<Rightarrow> py_exception + person_response" where
  "PersonResponse parse person_data =
     (case created_at_of parse (p_created_at person_data) of
        Inl e \<Rightarrow> Inl e
      | Inr created \<Rightarrow>
          (case (p_id person_data, p_name person_data, p_source_type person_data, created) of
             (Some i, Some n, Some st, Some c) \<Rightarrow>
               Inr \<lparr>pr_id = i, pr_name = n,
                    pr_birth_year = p_birth_year person_data,
                    pr_death_year = p_death_year person_data,
                    pr_occupation = p_occupation person_data,
                    pr_specialty = p_specialty person_data,
                    pr_hobby = p_hobby person_data,
                    pr_achievement = p_achievement person_data,
                    pr_female_experience = p_female_experience person_data,
                    pr_type = p_type person_data,
                    pr_frequency = p_frequency person_data,
                    pr_degree = p_degree person_data,
                    pr_description = p_description person_data,
                    pr_human_readable_id = p_human_readable_id person_data,
                    pr_knowledge_source = p_knowledge_source person_data,
                    pr_source_type = st,
                    pr_created_by = p_created_by person_data,
                    pr_is_verified = get_default (p_is_verified person_data) False,
                    pr_created_at = c,
                    pr_updated_at = None\<rparr>
           | _ \<Rightarrow> Inl ValidationError))"

subsection \<open>\<open>POST /persons\<close>\<close>

text \<open>\<open>CREATE (p:Person {...}) RETURN p\<close>: the store with the new node, and the row.\<close>

definition create_node :: "graph \<Rightarrow> person \<Rightarrow> (py_exception + node list) \<times> graph" where
  "create_node g props =
     (if \<not> available g then (Inl ServiceUnavailable, g)
      else
        (let n = \<lparr>element_id = str_nat (next_element g), labels = [''Person''], node_props = props\<rparr>
         in (Inr [n], g\<lparr>nodes := nodes g @ [n], next_element := Suc (next_element g)\<rparr>)))"

text \<open>\<open>db.add(u); await db.commit(); await db.refresh(u)\<close> for a row that exists.\<close>

definition db_commit :: "db \<Rightarrow> user \<Rightarrow> db" where
  "db_commit d u = map (\<lambda>row. if user_id row = user_id u then u else row) d"

definition create_person_params :: "string \<Rightarrow> person_create \<Rightarrow> user \<Rightarrow> datetime \<Rightarrow> person" where
  "create_person_params person_id person_data current_user now =
     \<lparr>p_id = Some person_id,
      p_name = Some (pc_name person_data),
      p_birth_year = pc_birth_year person_data,
      p_death_year = pc_death_year person_data,
      p_occupation = pc_occupation person_data,
      p_specialty = pc_specialty person_data,
      p_hobby = pc_hobby person_data,
      p_achievement = pc_achievement person_data,
      p_female_experience = pc_female_experience person_data,
      p_type = pc_type person_data,
      p_frequency = pc_frequency person_data,
      p_degree = pc_degree person_data,
      p_description = pc_description person_data,
      p_human_readable_id = pc_human_readable_id person_data,
      p_knowledge_source = pc_knowledge_source person_data,
      p_source_type = Some (pc_source_type person_data),
      p_created_by = Some (email current_user),
      p_is_verified = Some (pc_is_verified person_data),
      p_created_at = Some (isoformat now)\<rparr>"

definition created_person :: "string \<Rightarrow> person_create \<Rightarrow> user \<Rightarrow> datetime \<Rightarrow> person_response" where
  "created_person person_id person_data current_user now =
     \<lparr>pr_id = person_id,
      pr_name = pc_name person_data,
      pr_birth_year = pc_birth_year person_data,
      pr_death_year = pc_death_year person_data,
      pr_occupation = pc_occupation person_data,
      pr_specialty = pc_specialty person_data,
      pr_hobby = pc_hobby person_data,
      pr_achievement = pc_achievement person_data,
      pr_female_experience = pc_female_experience person_data,
      pr_type = pc_type person_data,
      pr_frequency = pc_frequency person_data,
      pr_degree = pc_degree person_data,
      pr_description = pc_description person_data,
      pr_human_readable_id = pc_human_readable_id person_data,
      pr_knowledge_source = pc_knowledge_source person_data,
      pr_source_type = pc_source_type person_data,
      pr_created_by = Some (email current_user),
      pr_is_verified = pc_is_verified person_data,
      pr_created_at = now,
      pr_updated_at = None\<rparr>"

text \<open>
  \<open>create_person\<close>: \<open>rnd 0\<close> is the draw of \<open>uuid.uuid4()\<close>, \<open>now1\<close> and \<open>now2\<close> the
  two readings of the clock. The result is the answer with the two stores after it.
\<close>

definition create_person ::
  "graph \<Rightarrow> db \<Rightarrow> uuid_source \<Rightarrow> datetime \<Rightarrow> datetime \<Rightarrow> person_create \<Rightarrow> user
     \<Rightarrow> (http_exception + person_response) \<times> graph \<times> db" where
  "create_person g d rnd now1 now2 person_data current_user =
     (let person_id = uuid_str (rnd 0) in
      case create_node g (create_person_params person_id person_data current_user now1) of
        (Inl e, g') \<Rightarrow>
          (Inl (HTTPException 500 (DetailOf ''Failed to create person node: '' e)), g', d)
      | (Inr result, g') \<Rightarrow>
          (let d' = (if neo4j_person_id current_user = None
                     then db_commit d
                            (current_user\<lparr>neo4j_person_id := Some person_id, is_in_graph := True\<rparr>)
                     else d)
           in (Inr (created_person person_id person_data current_user now2), g', d')))"

subsection \<open>\<open>PUT /persons/{person_id}\<close>\<close>

text \<open>
  The handler appends one assignment \<open>p.field = $field\<close> to \<open>update_fields\<close> for each
  field of the request that is not \<open>None\<close> (\<open>assign\<close>); an assignment is the change it
  makes to the properties of a node.
\<close>

definition assign ::
  "'a option \<Rightarrow> (('a option \<Rightarrow> 'a option) \<Rightarrow> person \<Rightarrow> person) \<Rightarrow> (person \<Rightarrow> person) list" where
  "assign x field_update = (case x of None \<Rightarrow> [] | Some v \<Rightarrow> [field_update (\<lambda>_. Some v)])"

definition update_fields :: "person_update \<Rightarrow> (person \<Rightarrow> person) list" where
  "update_fields person_data =
     assign (pu_name person_data) p_name_update @
     assign (pu_birth_year person_data) p_birth_year_update @
     assign (pu_death_year person_data) p_death_year_update @
     assign (pu_occupation person_data) p_occupation_update @
     assign (pu_specialty person_data) p_specialty_update @
     assign (pu_hobby person_data) p_hobby_update @
     assign (pu_achievement person_data) p_achievement_update @
     assign (pu_female_experience person_data) p_female_experience_update @
     assign (pu_type person_data) p_type_update @
     assign (pu_frequency person_data) p_frequency_update @
     assign (pu_degree person_data) p_degree_update @
     assign (pu_description person_data) p_description_update @
     assign (pu_human_readable_id person_data) p_human_readable_id_update @
     assign (pu_knowledge_source person_data) p_knowledge_source_update @
     assign (pu_is_verified person_data) p_is_verified_update"

text \<open>\<open>MATCH (p:Person {id: $id}) SET ... RETURN p\<close>: the store after it, and the rows.\<close>

definition set_query :: "graph \<Rightarrow> string \<Rightarrow> (person \<Rightarrow> person) list \<Rightarrow> (py_exception + node list) \<times> graph" where
  "set_query g i assignments =
     (if \<not> available g then (Inl ServiceUnavailable, g)
      else
        (let g' = g\<lparr>nodes :=
                     map (\<lambda>n. if is_person n \<and> p_id (node_props n) = Some i
                               then n\<lparr>node_props := fold (\<lambda>f p. f p) assignments (node_props n)\<rparr>
                               else n) (nodes g)\<rparr>
         in (Inr (match_person_id g' i), g')))"

definition update_person ::
  "graph \<Rightarrow> fromisoformat \<Rightarrow> string \<Rightarrow> person_update \<Rightarrow> (http_exception + person_response) \<times> graph" where
  "update_person g parse person_id person_data =
     (case execute_query g (Inr (match_person_id g person_id)) of
        Inl e \<Rightarrow> (Inl (HTTPException 500 (DetailOf ''Failed to update person: '' e)), g)
      | Inr result \<Rightarrow>
          if result = [] then (Inl (HTTPException 404 (Detail ''Person not found'')), g)
          else if update_fields person_data = []
          then (Inl (HTTPException 400 (Detail ''No fields to update'')), g)
          else
            (case set_query g person_id (update_fields person_data) of
               (Inl e, g') \<Rightarrow>
                 (Inl (HTTPException 500 (DetailOf ''Failed to update person: '' e)), g')
             | (Inr result', g') \<Rightarrow>
                 (case result' of
                    [] \<Rightarrow> (Inl (HTTPException 404 (Detail ''Person not found'')), g')
                  | person_data_result # _ \<Rightarrow>
                      (case PersonResponse parse (node_props person_data_result) of
                         Inl e \<Rightarrow>
                           (Inl (HTTPException 500 (DetailOf ''Failed to update person: '' e)), g')
                       | Inr updated_person \<Rightarrow> (Inr updated_person, g')))))"

section \<open>Registration (\<open>services/user_service.py\<close>, \<open>api/auth.py\<close>)\<close>

record user_create =
  uc_email :: string
  uc_full_name :: "string option"
  uc_password :: string

text \<open>The key the relational store gives a new row: one more than the largest in use.\<close>

definition new_user_id :: "db \<Rightarrow> nat" where
  "new_user_id d = Suc (fold max (map user_id d) 0)"

text \<open>\<open>user_create.full_name or user_create.email.split("@")[0]\<close>.\<close>

definition display_name :: "user_create \<Rightarrow> string" where
  "display_name user_create =
     (if truthy_str (uc_full_name user_create) then get_default (uc_full_name user_create) []
      else split_at_first (uc_email user_create))"

definition profile_prefix :: string where
  "profile_prefix = [CHR 0xE7, CHR 0x94, CHR 0xA8, CHR 0xE6, CHR 0x88, CHR 0xB7, CHR 0x20]"

definition profile_suffix :: string where
  "profile_suffix =
     [CHR 0x20, CHR 0xE7, CHR 0x9A, CHR 0x84, CHR 0xE4, CHR 0xB8, CHR 0xAA, CHR 0xE4, CHR 0xBA,
      CHR 0xBA, CHR 0xE6, CHR 0xA1, CHR 0xA3, CHR 0xE6, CHR 0xA1, CHR 0x88]"

definition user_created_source :: string where
  "user_created_source =
     [CHR 0xE7, CHR 0x94, CHR 0xA8, CHR 0xE6, CHR 0x88, CHR 0xB7, CHR 0xE5, CHR 0x88, CHR 0x9B,
      CHR 0xE5, CHR 0xBB, CHR 0xBA]"

definition create_user_params :: "string \<Rightarrow> user_create \<Rightarrow> datetime \<Rightarrow> person" where
  "create_user_params person_id user_create now =
     \<lparr>p_id = Some person_id,
      p_name = Some (display_name user_create),
      p_birth_year = Some 1995,
      p_death_year = None,
      p_occupation = Some [''User''],
      p_specialty = Some [''User''],
      p_hobby = None,
      p_achievement = Some ''New user registration'',
      p_female_experience = None,
      p_type = Some ''user'',
      p_frequency = Some 1,
      p_degree = Some 1,
      p_description = Some (profile_prefix @ display_name user_create @ profile_suffix),
      p_human_readable_id = Some ''0'',
      p_knowledge_source = Some user_created_source,
      p_source_type = Some ''user_created'',
      p_created_by = Some (uc_email user_create),
      p_is_verified = Some False,
      p_created_at = Some (isoformat now)\<rparr>"

text \<open>
  \<open>create_user\<close>. \<open>hash\<close> is \<open>get_password_hash\<close>. The new row has the defaults of the
  user table for its two graph columns (\<open>neo4j_person_id = None\<close>,
  \<open>is_in_graph = False\<close>, as \<open>UserInDB\<close> declares them). The result is what the function
  returns or raises, with the two stores after it.
\<close>

definition create_user ::
  "graph \<Rightarrow> db \<Rightarrow> (string \<Rightarrow> string) \<Rightarrow> uuid_source \<Rightarrow> datetime \<Rightarrow> user_create
     \<Rightarrow> (py_exception + user) \<times> graph \<times> db" where
  "create_user g d hash rnd now user_create =
     (case get_user_by_email d (uc_email user_create) of
        Inl e \<Rightarrow> (Inl e, g, d)
      | Inr (Some existing_user) \<Rightarrow> (Inl (ValueError ''Email already registered''), g, d)
      | Inr None \<Rightarrow>
          (let db_user = \<lparr>user_id = new_user_id d,
                          email = uc_email user_create,
                          hashed_password = hash (uc_password user_create),
                          full_name = uc_full_name user_create,
                          is_active = True,
                          neo4j_person_id = None,
                          is_in_graph = False\<rparr>;
               d1 = d @ [db_user];
               person_id = uuid_str (rnd 0);
               on_failure = (\<lambda>g'.
                 (let u = db_user\<lparr>is_in_graph := False, neo4j_person_id := None\<rparr>
                  in (Inr u, g', db_commit d1 u)))
           in case create_node g (create_user_params person_id user_create now) of
                (Inl e, g') \<Rightarrow> on_failure g'
              | (Inr result, g') \<Rightarrow>
                  if result = [] then on_failure g'
                  else
                    (let u = db_user\<lparr>neo4j_person_id := Some person_id, is_in_graph := True\<rparr>
                     in (Inr u, g', db_commit d1 u))))"

text \<open>
  \<open>POST /auth/register\<close>: a \<open>ValueError\<close> becomes a 400 with its text, any other
  exception a 500.
\<close>

definition register ::
  "graph \<Rightarrow> db \<Rightarrow> (string \<Rightarrow> string) \<Rightarrow> uuid_source \<Rightarrow> datetime \<Rightarrow> user_create
     \<Rightarrow> (http_exception + user) \<times> graph \<times> db" where
  "register g d hash rnd now register_data =
     (case create_user g d hash rnd now register_data of
        (Inl (ValueError m), g', d') \<Rightarrow> (Inl (HTTPException 400 (Detail m)), g', d')
      | (Inl e, g', d') \<Rightarrow> (Inl (HTTPException 500 (Detail ''Registration failed'')), g', d')
      | (Inr u, g', d') \<Rightarrow> (Inr u, g', d'))"

section \<open>The claims' own notions, and example data\<close>

text \<open>A request to \<open>PUT /persons/{id}\<close> that supplies none of the fields the handler reads.\<close>

definition supplied_none :: "person_update \<Rightarrow> bool" where
  "supplied_none u =
     (pu_name u = None \<and> pu_birth_year u = None \<and> pu_death_year u = None \<and>
      pu_occupation u = None \<and> pu_specialty u = None \<and> pu_hobby u = None \<and>
      pu_achievement u = None \<and> pu_female_experience u = None \<and> pu_type u = None \<and>
      pu_frequency u = None \<and> pu_degree u = None \<and> pu_description u = None \<and>
      pu_human_readable_id u = None \<and> pu_knowledge_source u = None \<and>
      pu_is_verified u = None)"

text \<open>
  The sparse update as the specification words it: a supplied field is overwritten with
  the supplied value, a field that is not supplied keeps its prior value, and the fields
  the request cannot name (\<open>id\<close>, \<open>source_type\<close>, \<open>created_by\<close>, \<open>created_at\<close>) are
  not touched. \<open>set_on\<close> applies it to the nodes the request addresses.
\<close>

definition overwrite :: "'a option \<Rightarrow> 'a option \<Rightarrow> 'a option" where
  "overwrite supplied prior = (case supplied of None \<Rightarrow> prior | Some v \<Rightarrow> Some v)"

definition sparse_update :: "person_update \<Rightarrow> person \<Rightarrow> person" where
  "sparse_update u p =
     p\<lparr>p_name := overwrite (pu_name u) (p_name p),
       p_birth_year := overwrite (pu_birth_year u) (p_birth_year p),
       p_death_year := overwrite (pu_death_year u) (p_death_year p),
       p_occupation := overwrite (pu_occupation u) (p_occupation p),
       p_specialty := overwrite (pu_specialty u) (p_specialty p),
       p_hobby := overwrite (pu_hobby u) (p_hobby p),
       p_achievement := overwrite (pu_achievement u) (p_achievement p),
       p_female_experience := overwrite (pu_female_experience u) (p_female_experience p),
       p_type := overwrite (pu_type u) (p_type p),
       p_frequency := overwrite (pu_frequency u) (p_frequency p),
       p_degree := overwrite (pu_degree u) (p_degree p),
       p_description := overwrite (pu_description u) (p_description p),
       p_human_readable_id := overwrite (pu_human_readable_id u) (p_human_readable_id p),
       p_knowledge_source := overwrite (pu_knowledge_source u) (p_knowledge_source p),
       p_is_verified := overwrite (pu_is_verified u) (p_is_verified p)\<rparr>"

definition set_on :: "string \<Rightarrow> person_update \<Rightarrow> node \<Rightarrow> node" where
  "set_on person_id person_data n =
     (if is_person n \<and> p_id (node_props n) = Some person_id
      then n\<lparr>node_props := sparse_update person_data (node_props n)\<rparr> else n)"

text \<open>Example data: a store with one public person, and requests against it.\<close>

definition no_person :: person where
  "no_person = \<lparr>p_id = None, p_name = None, p_birth_year = None, p_death_year = None,
     p_occupation = None, p_specialty = None, p_hobby = None, p_achievement = None,
     p_female_experience = None, p_type = None, p_frequency = None, p_degree = None,
     p_description = None, p_human_readable_id = None, p_knowledge_source = None,
     p_source_type = None, p_created_by = None, p_is_verified = None, p_created_at = None\<rparr>"

definition no_update :: person_update where
  "no_update = \<lparr>pu_name = None, pu_birth_year = None, pu_death_year = None,
     pu_occupation = None, pu_specialty = None, pu_hobby = None, pu_achievement = None,
     pu_female_experience = None, pu_type = None, pu_frequency = None, pu_degree = None,
     pu_description = None, pu_human_readable_id = None, pu_knowledge_source = None,
     pu_is_verified = None\<rparr>"

definition person_node :: "string \<Rightarrow> person \<Rightarrow> node" where
  "person_node e p = \<lparr>element_id = e, labels = [''Person''], node_props = p\<rparr>"

definition ada :: person where
  "ada = no_person\<lparr>p_id := Some ''a'', p_name := Some ''Ada'', p_source_type := Some ''system''\<rparr>"

definition ada_graph :: graph where
  "ada_graph = \<lparr>available = True, nodes = [person_node ''0'' ada], relationships = [],
     next_element = 1\<rparr>"

definition read_iso :: fromisoformat where
  "read_iso t = Some (Datetime t)"

text \<open>Example data: draws, a clock reading, a password hash, users and requests.\<close>

definition zeros :: uuid_source where
  "zeros k = ''00000000000000000000000000000000''"

definition noon :: datetime where
  "noon = Datetime ''2024-01-01T12:00:00''"

definition salted :: "string \<Rightarrow> string" where
  "salted pw = ''$2b$'' @ pw"

definition grace_create :: user_create where
  "grace_create = \<lparr>uc_email = ''grace@example.org'', uc_full_name = Some ''Grace'',
     uc_password = ''secret''\<rparr>"

definition down_graph :: graph where
  "down_graph = \<lparr>available = False, nodes = [], relationships = [], next_element = 0\<rparr>"

definition bob :: user where
  "bob = \<lparr>user_id = 1, email = ''bob@example.org'', hashed_password = ''h'',
     full_name = None, is_active = True, neo4j_person_id = None, is_in_graph = False\<rparr>"

definition linked_bob :: user where
  "linked_bob = bob\<lparr>neo4j_person_id := Some ''p'', is_in_graph := True\<rparr>"

definition eve_create :: person_create where
  "eve_create = \<lparr>pc_name = ''Eve'', pc_birth_year = None, pc_death_year = None,
     pc_occupation = None, pc_specialty = None, pc_hobby = None, pc_achievement = None,
     pc_female_experience = None, pc_type = None, pc_frequency = None, pc_degree = None,
     pc_description = None, pc_human_readable_id = None, pc_knowledge_source = None,
     pc_source_type = ''user_created'', pc_created_by = None, pc_is_verified = False\<rparr>"

text \<open>
  Example data: a store in which a public person is related to a user-created one by a
  user-created relationship, and a store whose only person has no \<open>id\<close> property.
\<close>

definition bea :: person where
  "bea = no_person\<lparr>p_id := Some ''b'', p_name := Some ''Bea'', p_source_type := Some ''user_created''\<rparr>"

definition no_rel :: rel_props where
  "no_rel = \<lparr>r_id = None, r_type = None, r_description = None, r_strength = None,
     r_source_type = None, r_created_by = None, r_created_at = None\<rparr>"

definition private_edge :: relationship where
  "private_edge = \<lparr>rel_element_id = ''r0'', rel_type = ''KNOWS'', start_node = ''0'',
     end_node = ''1'', rel_data = no_rel\<lparr>r_source_type := Some ''user_created''\<rparr>\<rparr>"

definition leak_graph :: graph where
  "leak_graph = \<lparr>available = True, nodes = [person_node ''0'' ada, person_node ''1'' bea],
     relationships = [private_edge], next_element = 2\<rparr>"

definition nameless_graph :: graph where
  "nameless_graph = \<lparr>available = True,
     nodes = [person_node ''0'' (no_person\<lparr>p_name := Some ''Ada Byron''\<rparr>)],
     relationships = [], next_element = 1\<rparr>"

text \<open>What a response shows of its edges and of its nodes.\<close>

definition edge_view :: "graph_edge \<Rightarrow> string \<times> string \<times> json option" where
  "edge_view e = (ge_source e, ge_target e, map_of (ge_properties e) ''source_type'')"

definition network_edges_seen :: "http_exception + graph_data \<Rightarrow> (string \<times> string \<times> json option) list option" where
  "network_edges_seen r = (case r of Inl e \<Rightarrow> None | Inr d \<Rightarrow> Some (map edge_view (gd_edges d)))"

definition optimized_edges_seen :: "http_exception + optimized_graph_data \<Rightarrow> (string \<times> string) list option" where
  "optimized_edges_seen r =
     (case r of Inl e \<Rightarrow> None | Inr d \<Rightarrow> Some (map (\<lambda>e. (oe_source e, oe_target e)) (od_edges d)))"


definition network_ids_seen :: "http_exception + graph_data \<Rightarrow> string list option" where
  "network_ids_seen r = (case r of Inl e \<Rightarrow> None | Inr d \<Rightarrow> Some (map gn_id (gd_nodes d)))"

text \<open>
  The search as the specification words it: the query is a case-insensitive substring of
  the name, of the first element of the occupation, specialty or hobby array, of the
  achievement, of the description or of the type. An absent field has no substring.
\<close>

definition ci_contains :: "string option \<Rightarrow> string \<Rightarrow> bool" where
  "ci_contains field q = (case field of None \<Rightarrow> False | Some s \<Rightarrow> sublist (lower q) (lower s))"

definition first_element :: "string list option \<Rightarrow> string option" where
  "first_element xs = (case xs of Some (x # rest) \<Rightarrow> Some x | _ \<Rightarrow> None)"

definition search_matches :: "string \<Rightarrow> person \<Rightarrow> bool" where
  "search_matches q p =
     (ci_contains (p_name p) q \<or>
      ci_contains (first_element (p_occupation p)) q \<or>
      ci_contains (first_element (p_specialty p)) q \<or>
      ci_contains (first_element (p_hobby p)) q \<or>
      ci_contains (p_achievement p) q \<or>
      ci_contains (p_description p) q \<or>
      ci_contains (p_type p) q)"

text \<open>Example data: a person whose second occupation is the only place a query occurs.\<close>

definition poet :: person where
  "poet = no_person\<lparr>p_id := Some ''p'', p_name := Some ''Ada'',
     p_occupation := Some [''Poet'', ''Mathematician'']\<rparr>"

definition poet_graph :: graph where
  "poet_graph = \<lparr>available = True, nodes = [person_node ''0'' poet], relationships = [],
     next_element = 1\<rparr>"

definition search_ids_seen :: "http_exception + graph_node list \<Rightarrow> string list option" where
  "search_ids_seen r = (case r of Inl e \<Rightarrow> None | Inr ns \<Rightarrow> Some (map gn_id ns))"

text \<open>
  What \<open>GET /graph/network\<close> returned, as sets. A page covers the store when the limits
  are at least the numbers of rows. The persons of a store are identified when each has an
  \<open>id\<close> property, its relationships when each has one: nothing is then synthesized for
  them. A person or an edge is hidden when it fails the filter of the anonymous queries.
  \<open>without_id\<close> is an edge with its identifier blanked.
\<close>

definition returned_nodes :: "http_exception + graph_data \<Rightarrow> graph_node set" where
  "returned_nodes r = (case r of Inl e \<Rightarrow> {} | Inr d \<Rightarrow> set (gd_nodes d))"

definition returned_edges :: "http_exception + graph_data \<Rightarrow> graph_edge set" where
  "returned_edges r = (case r of Inl e \<Rightarrow> {} | Inr d \<Rightarrow> set (gd_edges d))"

definition page_covers :: "graph \<Rightarrow> int \<Rightarrow> int \<Rightarrow> bool" where
  "page_covers g limit_nodes limit_edges =
     (int (length (match_person g)) \<le> limit_nodes \<and> int (length (match_edges g)) \<le> limit_edges)"

definition persons_identified :: "graph \<Rightarrow> bool" where
  "persons_identified g = list_all (\<lambda>n. p_id (node_props n) \<noteq> None) (match_person g)"

definition relationships_identified :: "graph \<Rightarrow> bool" where
  "relationships_identified g = list_all (\<lambda>r. r_id (rel_data r) \<noteq> None) (relationships g)"

definition anonymous_sees_node :: "node \<Rightarrow> bool" where
  "anonymous_sees_node n = c_where (anon_node_where (node_props n))"

definition anonymous_sees_edge :: "node \<times> relationship \<times> node \<Rightarrow> bool" where
  "anonymous_sees_edge t =
     (case t of (a, r, b) \<Rightarrow>
        c_where (anon_edge_where (node_props a) (rel_data r) (node_props b)))"

definition hidden_person :: "graph \<Rightarrow> bool" where
  "hidden_person g = list_ex (\<lambda>n. \<not> anonymous_sees_node n) (match_person g)"

definition hidden_edge :: "graph \<Rightarrow> bool" where
  "hidden_edge g = list_ex (\<lambda>t. \<not> anonymous_sees_edge t) (match_edges g)"

definition without_id :: "graph_edge \<Rightarrow> graph_edge" where
  "without_id e = e\<lparr>ge_id := []\<rparr>"

text \<open>
  Example data: a store whose first person is user-created; a store with a person that has
  neither \<open>id\<close> nor \<open>name\<close> after a user-created one; a store of two public persons
  with a public relationship that has no \<open>id\<close>; a second source of draws; a store with
  identified relationships in both directions between a public and a user-created person;
  a token decoder that knows one token, a request with another token and one with that
  token.
\<close>

definition private_first_graph :: graph where
  "private_first_graph = \<lparr>available = True, nodes = [person_node ''0'' bea, person_node ''1'' ada],
     relationships = [], next_element = 2\<rparr>"

definition unnamed_graph :: graph where
  "unnamed_graph = \<lparr>available = True,
     nodes = [person_node ''0'' bea, person_node ''1'' no_person],
     relationships = [], next_element = 2\<rparr>"

definition cleo :: person where
  "cleo = no_person\<lparr>p_id := Some ''c'', p_name := Some ''Cleo'', p_source_type := Some ''public''\<rparr>"

definition public_edge :: relationship where
  "public_edge = \<lparr>rel_element_id = ''r1'', rel_type = ''RELATED_TO'', start_node = ''0'',
     end_node = ''1'', rel_data = no_rel\<lparr>r_source_type := Some ''public''\<rparr>\<rparr>"

definition public_pair_graph :: graph where
  "public_pair_graph = \<lparr>available = True, nodes = [person_node ''0'' ada, person_node ''1'' cleo],
     relationships = [public_edge], next_element = 2\<rparr>"

definition ones :: uuid_source where
  "ones k = ''11111111111111111111111111111111''"

definition forth_edge :: relationship where
  "forth_edge = private_edge\<lparr>rel_data := (rel_data private_edge)\<lparr>r_id := Some ''e1''\<rparr>\<rparr>"

definition back_edge :: relationship where
  "back_edge = \<lparr>rel_element_id = ''r2'', rel_type = ''RELATED_TO'', start_node = ''1'',
     end_node = ''0'', rel_data = no_rel\<lparr>r_id := Some ''e2'', r_source_type := Some ''user_created''\<rparr>\<rparr>"

definition two_way_graph :: graph where
  "two_way_graph = leak_graph\<lparr>relationships := [forth_edge, back_edge]\<rparr>"

definition bob_decode :: jwt_decode where
  "bob_decode token =
     (if token = ''bob-token'' then Some (Payload (Some ''bob@example.org'')) else None)"

definition stale_request :: request where
  "stale_request = \<lparr>authorization = Some ''Bearer expired''\<rparr>"

definition bob_request :: request where
  "bob_request = \<lparr>authorization = Some ''Bearer bob-token''\<rparr>"

text \<open>
  The node and the edge built from a row that carries its identifiers, and the rows whose
  endpoints have an \<open>id\<close> and whose relationship has one.
\<close>

definition node_of :: "person \<Rightarrow> graph_node" where
  "node_of p =
     \<lparr>gn_id = get_default (p_id p) [],
      gn_label = get_default (p_name p) unknown_label,
      gn_type = ''person'',
      gn_properties = node_properties p\<rparr>"

definition edge_of :: "edge_row \<Rightarrow> graph_edge" where
  "edge_of record =
     \<lparr>ge_id = get_default (r_id (rel_data (row_r record))) [],
      ge_source = get_default (source_id record) [],
      ge_target = get_default (target_id record) [],
      ge_label = get_default (r_type (rel_data (row_r record))) ''RELATED_TO'',
      ge_type = ''relates_to'',
      ge_properties = edge_properties (rel_data (row_r record))\<rparr>"

definition row_endpoints :: "edge_row \<Rightarrow> bool" where
  "row_endpoints record = (source_id record \<noteq> None \<and> target_id record \<noteq> None)"

definition row_identified :: "edge_row \<Rightarrow> bool" where
  "row_identified record = (r_id (rel_data (row_r record)) \<noteq> None)"

section \<open>Properties\<close>

subsection \<open>Partial update\<close>

lemma assign_Nil_iff: "assign x f = [] \<longleftrightarrow> x = None"
  by (cases x) (simp_all add: assign_def)

lemma update_fields_Nil_iff: "update_fields u = [] \<longleftrightarrow> supplied_none u"
  by (simp add: update_fields_def supplied_none_def assign_Nil_iff)

lemma assign_name:
  "fold (\<lambda>f p. f p) (assign x p_name_update) p =
     p\<lparr>p_name := overwrite x (p_name p)\<rparr>"
  by (cases x) (simp_all add: assign_def overwrite_def)

lemma assign_birth_year:
  "fold (\<lambda>f p. f p) (assign x p_birth_year_update) p =
     p\<lparr>p_birth_year := overwrite x (p_birth_year p)\<rparr>"
  by (cases x) (simp_all add: assign_def overwrite_def)

lemma assign_death_year:
  "fold (\<lambda>f p. f p) (assign x p_death_year_update) p =
     p\<lparr>p_death_year := overwrite x (p_death_year p)\<rparr>"
  by (cases x) (simp_all add: assign_def overwrite_def)

lemma assign_occupation:
  "fold (\<lambda>f p. f p) (assign x p_occupation_update) p =
     p\<lparr>p_occupation := overwrite x (p_occupation p)\<rparr>"
  by (cases x) (simp_all add: assign_def overwrite_def)

lemma assign_specialty:
  "fold (\<lambda>f p. f p) (assign x p_specialty_update) p =
     p\<lparr>p_specialty := overwrite x (p_specialty p)\<rparr>"
  by (cases x) (simp_all add: assign_def overwrite_def)

lemma assign_hobby:
  "fold (\<lambda>f p. f p) (assign x p_hobby_update) p =
     p\<lparr>p_hobby := overwrite x (p_hobby p)\<rparr>"
  by (cases x) (simp_all add: assign_def overwrite_def)

lemma assign_achievement:
  "fold (\<lambda>f p. f p) (assign x p_achievement_update) p =
     p\<lparr>p_achievement := overwrite x (p_achievement p)\<rparr>"
  by (cases x) (simp_all add: assign_def overwrite_def)

lemma assign_female_experience:
  "fold (\<lambda>f p. f p) (assign x p_female_experience_update) p =
     p\<lparr>p_female_experience := overwrite x (p_female_experience p)\<rparr>"
  by (cases x) (simp_all add: assign_def overwrite_def)

lemma assign_type:
  "fold (\<lambda>f p. f p) (assign x p_type_update) p =
     p\<lparr>p_type := overwrite x (p_type p)\<rparr>"
  by (cases x) (simp_all add: assign_def overwrite_def)

lemma assign_frequency:
  "fold (\<lambda>f p. f p) (assign x p_frequency_update) p =
     p\<lparr>p_frequency := overwrite x (p_frequency p)\<rparr>"
  by (cases x) (simp_all add: assign_def overwrite_def)

lemma assign_degree:
  "fold (\<lambda>f p. f p) (assign x p_degree_update) p =
     p\<lparr>p_degree := overwrite x (p_degree p)\<rparr>"
  by (cases x) (simp_all add: assign_def overwrite_def)

lemma assign_description:
  "fold (\<lambda>f p. f p) (assign x p_description_update) p =
     p\<lparr>p_description := overwrite x (p_description p)\<rparr>"
  by (cases x) (simp_all add: assign_def overwrite_def)

lemma assign_human_readable_id:
  "fold (\<lambda>f p. f p) (assign x p_human_readable_id_update) p =
     p\<lparr>p_human_readable_id := overwrite x (p_human_readable_id p)\<rparr>"
  by (cases x) (simp_all add: assign_def overwrite_def)

lemma assign_knowledge_source:
  "fold (\<lambda>f p. f p) (assign x p_knowledge_source_update) p =
     p\<lparr>p_knowledge_source := overwrite x (p_knowledge_source p)\<rparr>"
  by (cases x) (simp_all add: assign_def overwrite_def)

lemma assign_is_verified:
  "fold (\<lambda>f p. f p) (assign x p_is_verified_update) p =
     p\<lparr>p_is_verified := overwrite x (p_is_verified p)\<rparr>"
  by (cases x) (simp_all add: assign_def overwrite_def)

lemmas assign_folds =
  assign_name assign_birth_year assign_death_year assign_occupation
  assign_specialty assign_hobby assign_achievement assign_female_experience
  assign_type assign_frequency assign_degree assign_description
  assign_human_readable_id assign_knowledge_source assign_is_verified

lemma fold_update_fields: "fold (\<lambda>f p. f p) (update_fields u) p = sparse_update u p"
  unfolding update_fields_def sparse_update_def
  by (simp add: assign_folds)

lemma execute_query_available: "available g \<Longrightarrow> execute_query g rows = rows"
  by (simp add: execute_query_def)

lemma ada_match: "match_person_id ada_graph ''a'' = [person_node ''0'' ada]"
  by (simp add: match_person_id_def match_person_def is_person_def ada_graph_def
      person_node_def ada_def no_person_def)

lemma sparse_update_none: "supplied_none u \<Longrightarrow> sparse_update u p = p"
  by (simp add: supplied_none_def sparse_update_def overwrite_def)

lemma match_person_id_Nil:
  "match_person_id g i = [] \<Longrightarrow> is_person n \<Longrightarrow> n \<in> set (nodes g) \<Longrightarrow> p_id (node_props n) \<noteq> Some i"
  by (auto simp: match_person_id_def match_person_def filter_empty_conv)

lemma set_query_available:
  "available g \<Longrightarrow> snd (set_query g i (update_fields u)) = g\<lparr>nodes := map (set_on i u) (nodes g)\<rparr>"
  by (simp add: set_query_def Let_def set_on_def fold_update_fields cong: map_cong)

lemma sparse_update_frame:
  "p_id (sparse_update u p) = p_id p \<and> p_source_type (sparse_update u p) = p_source_type p \<and>
   p_created_by (sparse_update u p) = p_created_by p \<and>
   p_created_at (sparse_update u p) = p_created_at p"
  by (simp add: sparse_update_def)

text \<open>
  Claim C4. A partial update of an existing person that supplies none of the fields is
  rejected with the validation error (400, "No fields to update") and the store is left
  as it was.
\<close>

theorem update_person_no_fields:
  assumes "available g" and "match_person_id g person_id \<noteq> []" and "supplied_none person_data"
  shows "update_person g parse person_id person_data =
           (Inl (HTTPException 400 (Detail ''No fields to update'')), g)"
  using assms by (simp add: update_person_def execute_query_available update_fields_Nil_iff)

theorem update_person_no_fields_witness:
  "available ada_graph \<and> match_person_id ada_graph ''a'' \<noteq> [] \<and> supplied_none no_update \<and>
   update_person ada_graph read_iso ''a'' no_update =
     (Inl (HTTPException 400 (Detail ''No fields to update'')), ada_graph)"
proof -
  have a: "available ada_graph" by (simp add: ada_graph_def)
  have m: "match_person_id ada_graph ''a'' \<noteq> []" by (simp add: ada_match)
  have n: "supplied_none no_update" by (simp add: supplied_none_def no_update_def)
  show ?thesis using update_person_no_fields [OF a m n] a m n by simp
qed

text \<open>
  Claim C5. A partial update overwrites exactly the supplied fields with the supplied
  values, on the nodes the request addresses, and leaves every other field, every other
  node and the relationships as they were.
\<close>

theorem update_person_sparse:
  assumes "available g"
  shows "snd (update_person g parse person_id person_data) =
           g\<lparr>nodes := map (set_on person_id person_data) (nodes g)\<rparr>"
proof (cases "match_person_id g person_id = []")
  case True
  then have "map (set_on person_id person_data) (nodes g) = nodes g"
    by (intro map_idI) (auto simp: set_on_def dest: match_person_id_Nil)
  with True assms show ?thesis
    by (simp add: update_person_def execute_query_available)
next
  case False
  show ?thesis
  proof (cases "supplied_none person_data")
    case True
    then have "map (set_on person_id person_data) (nodes g) = nodes g"
      by (intro map_idI) (simp add: set_on_def sparse_update_none)
    with True False assms show ?thesis
      by (simp add: update_person_def execute_query_available update_fields_Nil_iff)
  next
    case n: False
    have "snd (set_query g person_id (update_fields person_data)) =
            g\<lparr>nodes := map (set_on person_id person_data) (nodes g)\<rparr>"
      using assms by (rule set_query_available)
    with False n assms show ?thesis
      by (auto simp: update_person_def execute_query_available update_fields_Nil_iff
          split: prod.splits sum.splits list.splits)
  qed
qed

theorem update_person_sparse_witness:
  "available ada_graph \<and>
   snd (update_person ada_graph read_iso ''a'' (no_update\<lparr>pu_type := Some ''x''\<rparr>)) =
     ada_graph\<lparr>nodes := [person_node ''0'' (ada\<lparr>p_type := Some ''x''\<rparr>)]\<rparr>"
proof -
  have a: "available ada_graph" by (simp add: ada_graph_def)
  have "set_on ''a'' (no_update\<lparr>pu_type := Some ''x''\<rparr>) (person_node ''0'' ada) =
          person_node ''0'' (ada\<lparr>p_type := Some ''x''\<rparr>)"
    by (simp add: set_on_def is_person_def person_node_def ada_def no_person_def
        sparse_update_def no_update_def overwrite_def)
  then show ?thesis
    using update_person_sparse [OF a, of read_iso "''a''" "no_update\<lparr>pu_type := Some ''x''\<rparr>"] a
    by (simp add: ada_graph_def)
qed

subsection \<open>Registration and the link from a user to a person\<close>

lemma fold_max_ge: "(a::nat) \<le> fold max xs a"
  by (induction xs arbitrary: a) (auto intro: order_trans [OF max.cobounded2])

lemma fold_max_mem: "x \<in> set xs \<Longrightarrow> (x::nat) \<le> fold max xs a"
proof (induction xs arbitrary: a)
  case Nil
  then show ?case by simp
next
  case (Cons y ys)
  show ?case
  proof (cases "x = y")
    case True
    have "x \<le> max x a" by simp
    also have "\<dots> \<le> fold max ys (max x a)" by (rule fold_max_ge)
    finally show ?thesis using True by simp
  next
    case False
    with Cons show ?thesis by simp
  qed
qed

lemma new_user_id_fresh: "r \<in> set d \<Longrightarrow> user_id r < new_user_id d"
  by (simp add: new_user_id_def less_Suc_eq_le fold_max_mem)

lemma db_commit_new_row:
  assumes "user_id x = new_user_id d" and "user_id u = new_user_id d"
  shows "db_commit (d @ [x]) u = d @ [u]"
proof -
  have "map (\<lambda>row. if user_id row = user_id u then u else row) d = d"
  proof (intro map_idI)
    fix r assume "r \<in> set d"
    then have "user_id r < new_user_id d" by (rule new_user_id_fresh)
    with assms show "(if user_id r = user_id u then u else r) = r" by simp
  qed
  with assms show ?thesis by (simp add: db_commit_def)
qed

text \<open>
  Claim C9. When the e-mail address is not yet registered (the insert of the user row
  succeeds) and the write to the graph store fails, \<open>create_user\<close> still returns the new
  row, which is in the relational store, with \<open>is_in_graph\<close> false and no
  \<open>neo4j_person_id\<close>; no exception leaves \<open>create_user\<close> or the registration route.
\<close>

theorem registration_survives_graph_failure:
  assumes "get_user_by_email d (uc_email user_create) = Inr None" and "\<not> available g"
  shows "\<exists>u. create_user g d hash rnd now user_create = (Inr u, g, d @ [u]) \<and>
             register g d hash rnd now user_create = (Inr u, g, d @ [u]) \<and>
             email u = uc_email user_create \<and> \<not> is_in_graph u \<and> neo4j_person_id u = None"
proof -
  let ?u = "\<lparr>user_id = new_user_id d, email = uc_email user_create,
              hashed_password = hash (uc_password user_create),
              full_name = uc_full_name user_create, is_active = True,
              neo4j_person_id = None, is_in_graph = False\<rparr>"
  have c: "create_user g d hash rnd now user_create = (Inr ?u, g, d @ [?u])"
    using assms by (simp add: create_user_def create_node_def Let_def db_commit_new_row)
  then have "register g d hash rnd now user_create = (Inr ?u, g, d @ [?u])"
    by (simp add: register_def)
  with c show ?thesis by (intro exI [of _ ?u]) simp
qed

theorem registration_survives_graph_failure_witness:
  "get_user_by_email [] (uc_email grace_create) = Inr None \<and> \<not> available down_graph \<and>
   (\<exists>u. create_user down_graph [] salted zeros noon grace_create = (Inr u, down_graph, [u]) \<and>
        register down_graph [] salted zeros noon grace_create = (Inr u, down_graph, [u]) \<and>
        email u = ''grace@example.org'' \<and> \<not> is_in_graph u \<and> neo4j_person_id u = None)"
proof -
  have e: "get_user_by_email [] (uc_email grace_create) = Inr None"
    by (simp add: get_user_by_email_def)
  have a: "\<not> available down_graph" by (simp add: down_graph_def)
  show ?thesis
    using registration_survives_graph_failure [OF e a, of salted zeros noon] e a
    by (simp add: grace_create_def)
qed

text \<open>
  Claim C10. A successful \<open>POST /persons\<close> by a caller whose row has no
  \<open>neo4j_person_id\<close> also writes the caller's row, with \<open>neo4j_person_id\<close> the
  identifier of the new node and \<open>is_in_graph\<close> true; when the caller already has a
  \<open>neo4j_person_id\<close> the relational store is left as it was.
\<close>

theorem create_person_links_caller:
  assumes "available g"
  shows "\<exists>resp n.
           create_person g d rnd now1 now2 person_data current_user =
             (Inr resp,
              g\<lparr>nodes := nodes g @ [n], next_element := Suc (next_element g)\<rparr>,
              if neo4j_person_id current_user = None
              then db_commit d (current_user\<lparr>neo4j_person_id := Some (pr_id resp),
                                              is_in_graph := True\<rparr>)
              else d) \<and>
           p_id (node_props n) = Some (pr_id resp)"
proof -
  let ?i = "uuid_str (rnd 0)"
  let ?resp = "created_person ?i person_data current_user now2"
  let ?n = "\<lparr>element_id = str_nat (next_element g), labels = [''Person''],
              node_props = create_person_params ?i person_data current_user now1\<rparr>"
  have i: "pr_id ?resp = ?i" by (simp add: created_person_def)
  have p: "p_id (node_props ?n) = Some ?i" by (simp add: create_person_params_def)
  have "create_person g d rnd now1 now2 person_data current_user =
          (Inr ?resp, g\<lparr>nodes := nodes g @ [?n], next_element := Suc (next_element g)\<rparr>,
           if neo4j_person_id current_user = None
           then db_commit d (current_user\<lparr>neo4j_person_id := Some ?i, is_in_graph := True\<rparr>)
           else d)"
    using assms by (simp add: create_person_def create_node_def Let_def)
  with i p show ?thesis by (intro exI [of _ ?resp] exI [of _ ?n]) simp
qed

theorem create_person_links_caller_witness:
  "available ada_graph \<and>
   (\<exists>resp n.
      create_person ada_graph [bob] zeros noon noon eve_create bob =
        (Inr resp,
         ada_graph\<lparr>nodes := nodes ada_graph @ [n], next_element := Suc (next_element ada_graph)\<rparr>,
         db_commit [bob] (bob\<lparr>neo4j_person_id := Some (pr_id resp), is_in_graph := True\<rparr>)) \<and>
      p_id (node_props n) = Some (pr_id resp)) \<and>
   (\<exists>resp n.
      create_person ada_graph [linked_bob] zeros noon noon eve_create linked_bob =
        (Inr resp,
         ada_graph\<lparr>nodes := nodes ada_graph @ [n], next_element := Suc (next_element ada_graph)\<rparr>,
         [linked_bob]) \<and>
      p_id (node_props n) = Some (pr_id resp))"
proof -
  have a: "available ada_graph" by (simp add: ada_graph_def)
  have b: "neo4j_person_id bob = None" by (simp add: bob_def)
  have l: "neo4j_person_id linked_bob \<noteq> None" by (simp add: linked_bob_def)
  show ?thesis
    using create_person_links_caller [OF a, of "[bob]" zeros noon noon eve_create bob]
      create_person_links_caller [OF a, of "[linked_bob]" zeros noon noon eve_create linked_bob]
      a b l
    by simp
qed

subsection \<open>Credentials\<close>

lemma oauth2_scheme_missing:
  "oauth2_scheme \<lparr>authorization = None\<rparr> = Inl (HTTPException 401 (Detail ''Not authenticated''))"
  by (simp add: oauth2_scheme_def get_authorization_scheme_param_def)

lemma lower_Bearer: "lower ''Bearer'' = ''bearer''"
  by code_simp

lemma oauth2_scheme_bearer: "oauth2_scheme \<lparr>authorization = Some (''Bearer '' @ token)\<rparr> = Inr token"
  by (simp add: oauth2_scheme_def get_authorization_scheme_param_def partition_space_def lower_Bearer)

lemma strict_invalid_token:
  "verify_token dec token = None \<Longrightarrow>
   get_current_user dec d token = Inl (HTTPException 401 (Detail ''Could not validate credentials''))"
  by (simp add: get_current_user_def)

lemma strict_unresolvable:
  "verify_token dec token = Some td \<Longrightarrow> get_user_by_email d (token_email td) = Inr None \<Longrightarrow>
   get_current_user dec d token = Inl (HTTPException 404 (Detail ''User not found''))"
  by (simp add: get_current_user_def)

lemma strict_inactive:
  "verify_token dec token = Some td \<Longrightarrow> get_user_by_email d (token_email td) = Inr (Some u) \<Longrightarrow>
   \<not> is_active u \<Longrightarrow>
   get_current_user dec d token = Inl (HTTPException 400 (Detail ''Inactive user''))"
  by (simp add: get_current_user_def)

lemma strict_missing_token:
  "depends_get_current_user dec d \<lparr>authorization = None\<rparr> =
     Inl (HTTPException 401 (Detail ''Not authenticated''))"
  by (simp add: depends_get_current_user_def oauth2_scheme_missing)

lemma optional_invalid_token:
  "verify_token dec token = None \<Longrightarrow> get_current_user_or_none dec d token = None"
  by (simp add: get_current_user_or_none_def)

lemma optional_unresolvable:
  "verify_token dec token = Some td \<Longrightarrow> get_user_by_email d (token_email td) = Inr None \<Longrightarrow>
   get_current_user_or_none dec d token = None"
  by (simp add: get_current_user_or_none_def)

lemma optional_inactive:
  "verify_token dec token = Some td \<Longrightarrow> get_user_by_email d (token_email td) = Inr (Some u) \<Longrightarrow>
   \<not> is_active u \<Longrightarrow> get_current_user_or_none dec d token = None"
  by (simp add: get_current_user_or_none_def)

lemma optional_with_token_serves:
  "depends_get_current_user_or_none dec d \<lparr>authorization = Some (''Bearer '' @ token)\<rparr> =
     Inr (get_current_user_or_none dec d token)"
  by (simp only: depends_get_current_user_or_none_def oauth2_scheme_bearer sum.case)

text \<open>
  Claim C2. Strict authentication rejects a missing token, an invalid token, an identity
  that resolves to no user and an inactive account (the lemmas above), and optional
  authentication turns the last three into the anonymous caller. For a missing token the
  optional path does not do what the claim says: the request that carries no
  \<open>Authorization\<close> header is answered 401 by the token dependency, on
  \<open>get_current_user_or_none\<close> and so on both network routes, for every store.
\<close>

theorem optional_auth_rejects_missing_token:
  "depends_get_current_user_or_none dec d \<lparr>authorization = None\<rparr> =
     Inl (HTTPException 401 (Detail ''Not authenticated'')) \<and>
   route_get_graph_network dec d g rnd \<lparr>authorization = None\<rparr> skip_nodes limit_nodes skip_edges
     limit_edges = Inl (HTTPException 401 (Detail ''Not authenticated'')) \<and>
   route_get_optimized_graph_network dec d g rnd \<lparr>authorization = None\<rparr> skip_nodes limit_nodes
     skip_edges limit_edges = Inl (HTTPException 401 (Detail ''Not authenticated''))"
  by (simp add: route_get_graph_network_def route_get_optimized_graph_network_def
      depends_get_current_user_or_none_def oauth2_scheme_missing)

subsection \<open>Visibility\<close>

lemma skip_limit_subset: "skip_limit s l rows = Inr page \<Longrightarrow> set page \<subseteq> set rows"
  by (auto simp: skip_limit_def split: if_splits dest: in_set_takeD in_set_dropD)

lemma anon_node_where_iff:
  "c_where (anon_node_where p) \<longleftrightarrow>
     p_source_type p = None \<or> p_source_type p = Some ''system'' \<or> p_source_type p = Some ''public''"
  by (cases "p_source_type p")
    (auto simp: c_where_def anon_node_where_def c_or_def c_in_def c_is_null_def public_types_def)

lemma anonymous_nodes_public:
  assumes "nodes_query g True skip_nodes limit_nodes = Inr rows" and "n \<in> set rows"
  shows "p_source_type (node_props n) = None \<or> p_source_type (node_props n) = Some ''system'' \<or>
         p_source_type (node_props n) = Some ''public''"
proof -
  from assms have "n \<in> set (filter (\<lambda>n. c_where (anon_node_where (node_props n))) (match_person g))"
    using skip_limit_subset by (fastforce simp: nodes_query_def)
  then show ?thesis by (simp add: anon_node_where_iff)
qed

text \<open>
  Claim C1. The nodes an anonymous caller receives are all public (lemma
  \<open>anonymous_nodes_public\<close>). The edges are not: the filter of the edge query is read
  as \<open>A1 OR (A2 AND B1) OR (B2 AND R)\<close>, so an edge whose start node is public is
  returned whatever its end node and its own \<open>source_type\<close> are. Here the anonymous
  caller of both network routes receives the user-created edge from \<open>a\<close> to the
  user-created person \<open>b\<close>.
\<close>

theorem anonymous_network_returns_private_edge:
  "network_edges_seen (get_graph_network leak_graph zeros None 0 100 0 100) =
     Some [(''a'', ''b'', Some (JStr ''user_created''))] \<and>
   optimized_edges_seen (get_optimized_graph_network leak_graph zeros None 0 100 0 100) =
     Some [(''a'', ''b'')]"
  by code_simp

subsection \<open>Identifiers\<close>

lemma for_each_Inl:
  "x \<in> set xs \<Longrightarrow> f x = Inl e \<Longrightarrow> \<exists>e'. for_each f xs = Inl e'"
  by (induction xs) (auto split: sum.splits)

lemma get_graph_nodes_needs_id:
  assumes "available g" and "skip_limit skip limit (match_person g) = Inr page"
    and "n \<in> set page" and "p_id (node_props n) = None"
  shows "\<exists>e. get_graph_nodes g skip limit =
           Inl (HTTPException 500 (DetailOf ''Failed to retrieve graph nodes: '' e))"
proof -
  have v: "plain_node (node_props n) = Inl ValidationError"
    using assms(4) by (simp add: plain_node_def GraphNode_def)
  have m: "node_props n \<in> set (map node_props page)" using assms(3) by simp
  from for_each_Inl [of "node_props n" "map node_props page" plain_node ValidationError, OF m v] obtain e where e: "for_each plain_node (map node_props page) = Inl e"
    by (elim exE)
  have q: "execute_query g (skip_limit skip limit (match_person g)) = Inr page"
    using assms(1,2) by (simp add: execute_query_def)
  have "get_graph_nodes g skip limit =
          Inl (HTTPException 500 (DetailOf ''Failed to retrieve graph nodes: '' e))"
    by (simp add: get_graph_nodes_def q e)
  then show ?thesis by (rule exI)
qed

text \<open>
  Claim C8. \<open>GET /graph/network\<close> gives a node without \<open>id\<close> a synthesized
  identifier, but \<open>GET /graph/nodes\<close> does not: it passes \<open>None\<close> to \<open>GraphNode\<close>
  and the whole request fails with a 500 (lemma \<open>get_graph_nodes_needs_id\<close> for any
  store). On the store whose only person has no \<open>id\<close>, the first conjunct is the
  failure of \<open>GET /graph/nodes\<close> and the second the identifier that
  \<open>GET /graph/network\<close> synthesizes for the same node.
\<close>

theorem get_graph_nodes_fails_without_id:
  "get_graph_nodes nameless_graph 0 100 =
     Inl (HTTPException 500 (DetailOf ''Failed to retrieve graph nodes: '' ValidationError)) \<and>
   network_ids_seen (get_graph_network nameless_graph zeros (Some bob) 0 100 0 100) =
     Some [''ada-byron-00000000'']"
  by code_simp

subsection \<open>Neighbour lookup\<close>

lemma connections_query_at_most_10:
  "connections_query g anonymous node_id = Inr rows \<Longrightarrow> length rows \<le> 10"
  by (auto simp: connections_query_def split: if_splits)

lemma match_related_type:
  "(p, r, other) \<in> set (match_related g node_id) \<Longrightarrow> rel_type r = ''RELATED_TO''"
  by (auto simp: match_related_def related_rows_def other_end_def split: if_splits option.splits)

lemma match_related_other_types:
  assumes "\<And>r. r \<in> set (relationships g) \<Longrightarrow> rel_type r \<noteq> ''RELATED_TO''"
  shows "connections_query g anonymous node_id = Inr []"
proof -
  have "match_related g node_id = []"
    using assms by (auto simp: match_related_def related_rows_def)
  then show ?thesis by (simp add: connections_query_def)
qed

text \<open>\<open>GET /graph/edges\<close> lists a relationship of another type.\<close>

lemma graph_edges_lists_other_types:
  "map_sum id (map edge_view) (get_graph_edges leak_graph zeros 0 100) =
     Inr [(''a'', ''b'', Some (JStr ''user_created''))]"
  by code_simp

text \<open>
  Claim C6. The query of the neighbour lookup returns at most 10 rows and follows only
  relationships of type \<open>RELATED_TO\<close> (the lemmas above). What the handler returns,
  though, is not a list of records but a dictionary with the one key \<open>connections\<close>
  (first conjunct, on the store whose only relationship has another type), while the route
  declares \<open>response_model=List[dict]\<close>: the validation of the response fails and every
  request to the route is answered 500 (second conjunct, for every store, caller and node).
\<close>

theorem connections_route_fails_validation:
  "get_node_connections leak_graph None ''a'' = Inr (JDict [(''connections'', JList [])]) \<and>
   route_get_node_connections g current_user node_id =
     Inl (HTTPException 500
       (if available g then Detail ''Internal Server Error''
        else DetailOf ''Failed to retrieve node connections: '' ServiceUnavailable))"
proof
  show "get_node_connections leak_graph None ''a'' = Inr (JDict [(''connections'', JList [])])"
    by code_simp
  show "route_get_node_connections g current_user node_id =
     Inl (HTTPException 500
       (if available g then Detail ''Internal Server Error''
        else DetailOf ''Failed to retrieve node connections: '' ServiceUnavailable))"
    by (simp add: route_get_node_connections_def get_node_connections_def execute_query_def
        connections_query_def response_model_List_dict_def)
qed

subsection \<open>Search\<close>

lemma c_where_or: "c_where (c_or a b) \<longleftrightarrow> c_where a \<or> c_where b"
  by (auto simp: c_where_def c_or_def)

lemma c_index0_first: "c_index0 xs = first_element xs"
  by (auto simp: c_index0_def first_element_def split: option.splits list.splits)

lemma c_where_contains:
  "c_where (c_contains (c_toLower field) (c_toLower (Some q))) \<longleftrightarrow> ci_contains field q"
  by (cases field) (simp_all add: c_where_def c_contains_def c_toLower_def ci_contains_def)

lemma search_where_matches: "c_where (search_where q p) \<longleftrightarrow> search_matches q p"
  by (simp add: search_where_def search_matches_def Let_def c_where_or c_where_contains
      c_index0_first)

lemma for_each_length: "for_each f xs = Inr ys \<Longrightarrow> length ys = length xs"
  by (induction xs arbitrary: ys) (auto split: sum.splits)

text \<open>
  Claim C7. A person satisfies the filter of the search query exactly when the query is a
  case-insensitive substring of one of the seven places the specification names; the
  query returns the first 50 such persons, so a successful answer has at most 50 nodes,
  built from them; and only the first element of an array counts: the elements after the
  first never change whether a person matches.
\<close>

theorem search_first_50_matches:
  "c_where (search_where q p) = search_matches q p \<and>
   search_query g q =
     Inr (take 50 (filter (\<lambda>n. search_matches q (node_props n)) (match_person g))) \<and>
   (\<forall>ns. search_graph_nodes g q = Inr ns \<longrightarrow>
      length ns \<le> 50 \<and>
      for_each plain_node
        (map node_props (take 50 (filter (\<lambda>n. search_matches q (node_props n)) (match_person g)))) =
        Inr ns) \<and>
   search_matches q (p\<lparr>p_occupation := Some (x # rest)\<rparr>) =
     search_matches q (p\<lparr>p_occupation := Some [x]\<rparr>)"
proof (intro conjI allI impI)
  show "c_where (search_where q p) = search_matches q p" by (rule search_where_matches)
  show q: "search_query g q =
     Inr (take 50 (filter (\<lambda>n. search_matches q (node_props n)) (match_person g)))"
    by (simp add: search_query_def search_where_matches)
  show "search_matches q (p\<lparr>p_occupation := Some (x # rest)\<rparr>) =
     search_matches q (p\<lparr>p_occupation := Some [x]\<rparr>)"
    by (simp add: search_matches_def first_element_def)
  fix ns assume a: "search_graph_nodes g q = Inr ns"
  then show f: "for_each plain_node
        (map node_props (take 50 (filter (\<lambda>n. search_matches q (node_props n)) (match_person g)))) =
        Inr ns"
    by (auto simp: search_graph_nodes_def execute_query_def q split: if_splits sum.splits)
  from for_each_length [OF f] show "length ns \<le> 50" by simp
qed


theorem search_first_50_matches_witness:
  "(\<exists>ns. search_graph_nodes poet_graph ''POET'' = Inr ns \<and> map gn_id ns = [''p''] \<and>
         length ns \<le> 50) \<and>
   search_graph_nodes poet_graph ''math'' = Inr [] \<and>
   search_matches ''POET'' poet \<and> \<not> search_matches ''math'' poet"
proof -
  have "search_ids_seen (search_graph_nodes poet_graph ''POET'') = Some [''p'']"
    by code_simp
  then obtain ns where ns: "search_graph_nodes poet_graph ''POET'' = Inr ns"
    and ids: "map gn_id ns = [''p'']"
    by (auto simp: search_ids_seen_def split: sum.splits)
  from search_first_50_matches [of "''POET''" poet poet_graph] ns
  have len: "length ns \<le> 50" by blast
  have none: "search_graph_nodes poet_graph ''math'' = Inr []" by code_simp
  have "c_where (search_where ''POET'' poet)" by code_simp
  with search_first_50_matches [of "''POET''" poet poet_graph]
  have yes: "search_matches ''POET'' poet" by blast
  have "\<not> c_where (search_where ''math'' poet)" by code_simp
  with search_first_50_matches [of "''math''" poet poet_graph]
  have no: "\<not> search_matches ''math'' poet" by blast
  from ns ids len none yes no show ?thesis by simp
qed

subsection \<open>Authenticated and anonymous views\<close>

lemma network_node_identified:
  "p_id p \<noteq> None \<Longrightarrow> network_node rnd k i p = (Inr (node_of p), k)"
  by (auto simp: network_node_def node_of_def GraphNode_def get_default_def Let_def
      split: option.splits)

lemma network_nodes_identified:
  "list_all (\<lambda>p. p_id p \<noteq> None) ps \<Longrightarrow> network_nodes rnd k i ps = (Inr (map node_of ps), k)"
  by (induction ps arbitrary: i) (simp_all add: network_node_identified)

lemma network_edge_endpoints:
  assumes "row_endpoints r"
  shows "\<exists>e. network_edge rnd k i r = (Inr e, Suc k) \<and> without_id e = without_id (edge_of r) \<and>
             (row_identified r \<longrightarrow> e = edge_of r)"
proof -
  from assms obtain s t where "source_id r = Some s" "target_id r = Some t"
    by (auto simp: row_endpoints_def)
  then show ?thesis
    by (cases "r_id (rel_data (row_r r))")
      (simp_all add: network_edge_def edge_of_def GraphEdge_def get_default_def Let_def
        without_id_def row_identified_def)
qed

lemma network_edges_endpoints:
  "list_all row_endpoints rs \<Longrightarrow>
   \<exists>es. network_edges rnd k i rs = (Inr es, k + length rs) \<and>
        map without_id es = map (\<lambda>r. without_id (edge_of r)) rs \<and>
        (list_all row_identified rs \<longrightarrow> es = map edge_of rs)"
proof (induction rs arbitrary: k i)
  case Nil
  then show ?case by simp
next
  case (Cons r rs)
  from Cons.prems have r: "row_endpoints r" and rs: "list_all row_endpoints rs" by simp_all
  from network_edge_endpoints [OF r, of rnd k i] obtain e
    where e: "network_edge rnd k i r = (Inr e, Suc k)"
      "without_id e = without_id (edge_of r)" "row_identified r \<longrightarrow> e = edge_of r"
    by blast
  from Cons.IH [OF rs, of "Suc k" "Suc i"] obtain es
    where es: "network_edges rnd (Suc k) (Suc i) rs = (Inr es, Suc k + length rs)"
      "map without_id es = map (\<lambda>r. without_id (edge_of r)) rs"
      "list_all row_identified rs \<longrightarrow> es = map edge_of rs"
    by blast
  from e es show ?case by (intro exI [of _ "e # es"]) simp
qed

lemma find_node_person:
  "find_node g e = Some a \<Longrightarrow> is_person a \<Longrightarrow> a \<in> set (match_person g)"
  by (auto simp: find_node_def match_person_def find_Some_iff)

lemma match_edges_members:
  assumes "(a, r, b) \<in> set (match_edges g)"
  shows "a \<in> set (match_person g) \<and> b \<in> set (match_person g) \<and> r \<in> set (relationships g)"
  using assms
  by (auto simp: match_edges_def match_edge_row_def find_node_person
      split: option.splits if_splits)

lemma persons_identified_rows:
  assumes "persons_identified g" and "t \<in> set (match_edges g)"
  shows "row_endpoints (return_edge t)"
proof -
  obtain a r b where t: "t = (a, r, b)" by (cases t)
  with assms(2) match_edges_members [of a r b g]
  have "a \<in> set (match_person g)" "b \<in> set (match_person g)" by simp_all
  with assms(1) t show ?thesis
    by (simp add: persons_identified_def list_all_iff row_endpoints_def return_edge_def)
qed

lemma relationships_identified_rows:
  assumes "relationships_identified g" and "t \<in> set (match_edges g)"
  shows "row_identified (return_edge t)"
proof -
  obtain a r b where t: "t = (a, r, b)" by (cases t)
  with assms(2) match_edges_members [of a r b g] have "r \<in> set (relationships g)" by simp
  with assms(1) t show ?thesis
    by (simp add: relationships_identified_def list_all_iff row_identified_def return_edge_def)
qed

lemma skip_limit_whole:
  "int (length rows) \<le> l \<Longrightarrow> skip_limit 0 l rows = Inr rows"
  by (simp add: skip_limit_def)

lemma skip_limit_whole_filter:
  assumes "int (length rows) \<le> l"
  shows "skip_limit 0 l (map f (filter P rows)) = Inr (map f (filter P rows))"
proof -
  have "int (length (filter P rows)) \<le> int (length rows)"
    by (simp only: of_nat_le_iff length_filter_le)
  with assms have "int (length (map f (filter P rows))) \<le> l"
    unfolding length_map by linarith
  then show ?thesis by (rule skip_limit_whole)
qed

lemma nodes_query_whole:
  assumes "int (length (match_person g)) \<le> limit_nodes"
  shows "nodes_query g anonymous 0 limit_nodes =
           Inr (filter (\<lambda>n. anonymous \<longrightarrow> anonymous_sees_node n) (match_person g))"
  using assms skip_limit_whole_filter [OF assms, of "\<lambda>n. n"]
  by (simp add: nodes_query_def skip_limit_whole anonymous_sees_node_def)

lemma edges_query_whole:
  assumes "int (length (match_edges g)) \<le> limit_edges"
  shows "edges_query g anonymous 0 limit_edges =
           Inr (map return_edge
                  (filter (\<lambda>t. anonymous \<longrightarrow> anonymous_sees_edge t) (match_edges g)))"
proof -
  have "anonymous_sees_edge = (\<lambda>t. case t of (a, r, b) \<Rightarrow>
          c_where (anon_edge_where (node_props a) (rel_data r) (node_props b)))"
    by (rule ext) (simp add: anonymous_sees_edge_def)
  with skip_limit_whole_filter [OF assms, of return_edge] show ?thesis
    using skip_limit_whole_filter [OF assms, of return_edge "\<lambda>t. True"]
    by (simp add: edges_query_def)
qed


lemma get_graph_network_whole:
  assumes "available g" and "page_covers g limit_nodes limit_edges" and "persons_identified g"
  shows "\<exists>es. get_graph_network g rnd current_user 0 limit_nodes 0 limit_edges =
                Inr \<lparr>gd_nodes =
                       map (\<lambda>n. node_of (node_props n))
                         (filter (\<lambda>n. current_user = None \<longrightarrow> anonymous_sees_node n)
                            (match_person g)),
                     gd_edges = es\<rparr> \<and>
              map without_id es =
                map (\<lambda>t. without_id (edge_of (return_edge t)))
                  (filter (\<lambda>t. current_user = None \<longrightarrow> anonymous_sees_edge t) (match_edges g)) \<and>
              (relationships_identified g \<longrightarrow>
                 es = map (\<lambda>t. edge_of (return_edge t))
                        (filter (\<lambda>t. current_user = None \<longrightarrow> anonymous_sees_edge t)
                           (match_edges g)))"
proof -
  let ?ns = "filter (\<lambda>n. current_user = None \<longrightarrow> anonymous_sees_node n) (match_person g)"
  let ?ts = "filter (\<lambda>t. current_user = None \<longrightarrow> anonymous_sees_edge t) (match_edges g)"
  from assms(2) have n: "int (length (match_person g)) \<le> limit_nodes"
    and e: "int (length (match_edges g)) \<le> limit_edges"
    by (simp_all add: page_covers_def)
  have ids: "list_all (\<lambda>p. p_id p \<noteq> None) (map node_props ?ns)"
    using assms(3) by (simp add: persons_identified_def list_all_iff)
  have ends: "list_all row_endpoints (map return_edge ?ts)"
    using persons_identified_rows [OF assms(3)] by (simp add: list_all_iff)
  from network_edges_endpoints [OF ends, of rnd 0 0] obtain es
    where es: "network_edges rnd 0 0 (map return_edge ?ts) = (Inr es, 0 + length (map return_edge ?ts))"
      and w: "map without_id es = map (\<lambda>r. without_id (edge_of r)) (map return_edge ?ts)"
      and i: "list_all row_identified (map return_edge ?ts) \<longrightarrow> es = map edge_of (map return_edge ?ts)"
    by blast
  have "get_graph_network g rnd current_user 0 limit_nodes 0 limit_edges =
          Inr \<lparr>gd_nodes = map (\<lambda>n. node_of (node_props n)) ?ns, gd_edges = es\<rparr>"
    unfolding get_graph_network_def get_graph_network_body_def
    by (simp add: execute_query_available [OF assms(1)] nodes_query_whole [OF n]
        edges_query_whole [OF e] network_nodes_identified [OF ids] es comp_def)
  moreover have "map without_id es = map (\<lambda>t. without_id (edge_of (return_edge t))) ?ts"
    using w by (simp add: comp_def)
  moreover have "relationships_identified g \<longrightarrow> es = map (\<lambda>t. edge_of (return_edge t)) ?ts"
  proof
    assume "relationships_identified g"
    then have "list_all row_identified (map return_edge ?ts)"
      using relationships_identified_rows by (simp add: list_all_iff)
    with i show "es = map (\<lambda>t. edge_of (return_edge t)) ?ts" by (simp add: comp_def)
  qed
  ultimately show ?thesis by blast
qed

lemma node_of_source_type: "node_of p = node_of q \<Longrightarrow> p_source_type p = p_source_type q"
  by (auto simp: node_of_def node_properties_def jstr_def split: option.splits)

lemma anonymous_sees_node_cong:
  "p_source_type (node_props m) = p_source_type (node_props n) \<Longrightarrow>
   anonymous_sees_node m = anonymous_sees_node n"
  by (simp add: anonymous_sees_node_def anon_node_where_def)

lemma hidden_node_not_returned:
  assumes "\<not> anonymous_sees_node n"
  shows "node_of (node_props n) \<notin> (\<lambda>m. node_of (node_props m)) ` {m \<in> set xs. anonymous_sees_node m}"
proof
  assume "node_of (node_props n) \<in> (\<lambda>m. node_of (node_props m)) ` {m \<in> set xs. anonymous_sees_node m}"
  then obtain m where m: "anonymous_sees_node m" "node_of (node_props n) = node_of (node_props m)"
    by blast
  from node_of_source_type [OF m(2)] have "anonymous_sees_node n = anonymous_sees_node m"
    by (rule anonymous_sees_node_cong)
  with m(1) assms show False by simp
qed

text \<open>
  Claim C3, as stated, fails in four ways. When every record is public the two callers
  receive the same nodes, so the superset is not strict. The filter is applied before
  \<open>SKIP\<close> and \<open>LIMIT\<close>, so with a page of one node the anonymous caller receives the
  public node \<open>a\<close> and the authenticated caller the user-created node \<open>b\<close>. A node
  without \<open>id\<close> and \<open>name\<close> is given an identifier made from its position in the
  result, which differs between the two callers. And an edge whose relationship has no
  \<open>id\<close> is given a random identifier, drawn anew for each request.
\<close>

theorem authenticated_superset_counterexample:
  "\<not> (returned_nodes (get_graph_network ada_graph zeros None 0 100 0 100) \<subset>
        returned_nodes (get_graph_network ada_graph zeros (Some bob) 0 100 0 100)) \<and>
   \<not> (returned_nodes (get_graph_network private_first_graph zeros None 0 1 0 100) \<subseteq>
        returned_nodes (get_graph_network private_first_graph zeros (Some bob) 0 1 0 100)) \<and>
   \<not> (returned_nodes (get_graph_network unnamed_graph zeros None 0 100 0 100) \<subseteq>
        returned_nodes (get_graph_network unnamed_graph zeros (Some bob) 0 100 0 100)) \<and>
   \<not> (returned_edges (get_graph_network public_pair_graph zeros None 0 100 0 100) \<subseteq>
        returned_edges (get_graph_network public_pair_graph ones (Some bob) 0 100 0 100))"
  by code_simp

text \<open>
  Claim C3, amended. Take a request that the optional authentication classifies as
  anonymous and one that it classifies as authenticated, a page that covers the store
  (skip 0, limits at least the numbers of persons and of relationships between persons)
  and a store whose persons all have an \<open>id\<close>. Then the route answers both with what the
  handler returns, both succeed, and
  \<^item> the authenticated caller receives the node of every person and, up to the
    identifier of the edge, the edge of every relationship between persons: nothing is
    filtered for it;
  \<^item> every node returned to the anonymous caller is returned to the authenticated one, and
    so is every edge up to its identifier, and with its identifier when the relationships
    all have an \<open>id\<close>;
  \<^item> the superset of nodes is strict exactly when some person is hidden from the
    anonymous caller, and the authenticated caller receives more edges than the anonymous
    one exactly when some edge is hidden.
\<close>

theorem authenticated_sees_what_anonymous_sees:
  assumes "available g" and "page_covers g limit_nodes limit_edges" and "persons_identified g"
    and "depends_get_current_user_or_none dec d req = Inr None"
    and "depends_get_current_user_or_none dec d req' = Inr (Some u)"
  shows "route_get_graph_network dec d g rnd req 0 limit_nodes 0 limit_edges =
           get_graph_network g rnd None 0 limit_nodes 0 limit_edges \<and>
         route_get_graph_network dec d g rnd' req' 0 limit_nodes 0 limit_edges =
           get_graph_network g rnd' (Some u) 0 limit_nodes 0 limit_edges \<and>
         (\<exists>da db.
            get_graph_network g rnd None 0 limit_nodes 0 limit_edges = Inr da \<and>
            get_graph_network g rnd' (Some u) 0 limit_nodes 0 limit_edges = Inr db \<and>
            gd_nodes db = map (\<lambda>n. node_of (node_props n)) (match_person g) \<and>
            map without_id (gd_edges db) =
              map (\<lambda>t. without_id (edge_of (return_edge t))) (match_edges g) \<and>
            returned_nodes (Inr da) \<subseteq> returned_nodes (Inr db) \<and>
            without_id ` returned_edges (Inr da) \<subseteq> without_id ` returned_edges (Inr db) \<and>
            (relationships_identified g \<longrightarrow> returned_edges (Inr da) \<subseteq> returned_edges (Inr db)) \<and>
            (hidden_person g \<longleftrightarrow> returned_nodes (Inr da) \<subset> returned_nodes (Inr db)) \<and>
            (hidden_edge g \<longleftrightarrow> length (gd_edges da) < length (gd_edges db)))"
proof (intro conjI)
  show "route_get_graph_network dec d g rnd req 0 limit_nodes 0 limit_edges =
          get_graph_network g rnd None 0 limit_nodes 0 limit_edges"
    using assms(4) by (simp add: route_get_graph_network_def)
  show "route_get_graph_network dec d g rnd' req' 0 limit_nodes 0 limit_edges =
          get_graph_network g rnd' (Some u) 0 limit_nodes 0 limit_edges"
    using assms(5) by (simp add: route_get_graph_network_def)
  let ?ns = "filter anonymous_sees_node (match_person g)"
  let ?ts = "filter anonymous_sees_edge (match_edges g)"
  from get_graph_network_whole [OF assms(1-3), of rnd None] obtain ea
    where a: "get_graph_network g rnd None 0 limit_nodes 0 limit_edges =
                Inr \<lparr>gd_nodes = map (\<lambda>n. node_of (node_props n)) ?ns, gd_edges = ea\<rparr>"
      and wa: "map without_id ea = map (\<lambda>t. without_id (edge_of (return_edge t))) ?ts"
      and ia: "relationships_identified g \<longrightarrow> ea = map (\<lambda>t. edge_of (return_edge t)) ?ts"
    by auto
  from get_graph_network_whole [OF assms(1-3), of rnd' "Some u"] obtain eb
    where b: "get_graph_network g rnd' (Some u) 0 limit_nodes 0 limit_edges =
                Inr \<lparr>gd_nodes = map (\<lambda>n. node_of (node_props n)) (match_person g), gd_edges = eb\<rparr>"
      and wb: "map without_id eb = map (\<lambda>t. without_id (edge_of (return_edge t))) (match_edges g)"
      and ib: "relationships_identified g \<longrightarrow> eb = map (\<lambda>t. edge_of (return_edge t)) (match_edges g)"
    by auto
  have sub_n: "set (map (\<lambda>n. node_of (node_props n)) ?ns) \<subseteq>
                 set (map (\<lambda>n. node_of (node_props n)) (match_person g))"
    by auto
  have sub_w: "without_id ` set ea \<subseteq> without_id ` set eb"
  proof -
    have "without_id ` set ea = set (map without_id ea)" by simp
    also have "\<dots> = (\<lambda>t. without_id (edge_of (return_edge t))) ` set ?ts"
      unfolding wa by simp
    also have "\<dots> \<subseteq> (\<lambda>t. without_id (edge_of (return_edge t))) ` set (match_edges g)"
      by auto
    also have "\<dots> = set (map without_id eb)" unfolding wb by simp
    finally show ?thesis by simp
  qed
  have sub_e: "relationships_identified g \<longrightarrow> set ea \<subseteq> set eb"
    using ia ib by auto
  have strict_n: "hidden_person g \<longleftrightarrow>
                    set (map (\<lambda>n. node_of (node_props n)) ?ns) \<subset>
                    set (map (\<lambda>n. node_of (node_props n)) (match_person g))"
  proof (cases "hidden_person g")
    case True
    then obtain n where n: "n \<in> set (match_person g)" "\<not> anonymous_sees_node n"
      by (auto simp: hidden_person_def list_ex_iff)
    from hidden_node_not_returned [OF n(2), of "match_person g"]
    have "node_of (node_props n) \<notin> set (map (\<lambda>n. node_of (node_props n)) ?ns)" by simp
    moreover from n(1)
    have "node_of (node_props n) \<in> set (map (\<lambda>n. node_of (node_props n)) (match_person g))"
      by simp
    ultimately have "set (map (\<lambda>n. node_of (node_props n)) ?ns) \<subset>
                    set (map (\<lambda>n. node_of (node_props n)) (match_person g))"
      using sub_n by blast
    with True show ?thesis by simp
  next
    case False
    then have "?ns = match_person g"
      by (simp add: hidden_person_def list_ex_iff filter_id_conv)
    with False show ?thesis by simp
  qed
  have strict_e: "hidden_edge g \<longleftrightarrow> length ea < length eb"
  proof (cases "hidden_edge g")
    case True
    then obtain t where "t \<in> set (match_edges g)" "\<not> anonymous_sees_edge t"
      by (auto simp: hidden_edge_def list_ex_iff)
    then have "length ?ts < length (match_edges g)" by (rule length_filter_less)
    moreover have "length ea = length ?ts"
      using arg_cong [OF wa, of length] by simp
    moreover have "length eb = length (match_edges g)"
      using arg_cong [OF wb, of length] by simp
    ultimately show ?thesis using True by simp
  next
    case False
    then have "?ts = match_edges g"
      by (simp add: hidden_edge_def list_ex_iff filter_id_conv)
    moreover have "length ea = length ?ts"
      using arg_cong [OF wa, of length] by simp
    moreover have "length eb = length (match_edges g)"
      using arg_cong [OF wb, of length] by simp
    ultimately show ?thesis using False by simp
  qed
  show "\<exists>da db.
            get_graph_network g rnd None 0 limit_nodes 0 limit_edges = Inr da \<and>
            get_graph_network g rnd' (Some u) 0 limit_nodes 0 limit_edges = Inr db \<and>
            gd_nodes db = map (\<lambda>n. node_of (node_props n)) (match_person g) \<and>
            map without_id (gd_edges db) =
              map (\<lambda>t. without_id (edge_of (return_edge t))) (match_edges g) \<and>
            returned_nodes (Inr da) \<subseteq> returned_nodes (Inr db) \<and>
            without_id ` returned_edges (Inr da) \<subseteq> without_id ` returned_edges (Inr db) \<and>
            (relationships_identified g \<longrightarrow> returned_edges (Inr da) \<subseteq> returned_edges (Inr db)) \<and>
            (hidden_person g \<longleftrightarrow> returned_nodes (Inr da) \<subset> returned_nodes (Inr db)) \<and>
            (hidden_edge g \<longleftrightarrow> length (gd_edges da) < length (gd_edges db))"
    using a b wb sub_n sub_w sub_e strict_n strict_e
    by (intro exI [of _ "\<lparr>gd_nodes = map (\<lambda>n. node_of (node_props n)) ?ns, gd_edges = ea\<rparr>"]
        exI [of _ "\<lparr>gd_nodes = map (\<lambda>n. node_of (node_props n)) (match_person g), gd_edges = eb\<rparr>"])
      (simp add: returned_nodes_def returned_edges_def)
qed


theorem authenticated_sees_what_anonymous_sees_witness:
  "available two_way_graph \<and> page_covers two_way_graph 100 100 \<and>
   persons_identified two_way_graph \<and>
   depends_get_current_user_or_none bob_decode [bob] stale_request = Inr None \<and>
   depends_get_current_user_or_none bob_decode [bob] bob_request = Inr (Some bob) \<and>
   relationships_identified two_way_graph \<and> hidden_person two_way_graph \<and>
   hidden_edge two_way_graph \<and>
   (\<exists>da db.
      route_get_graph_network bob_decode [bob] two_way_graph zeros stale_request 0 100 0 100 =
        Inr da \<and>
      route_get_graph_network bob_decode [bob] two_way_graph ones bob_request 0 100 0 100 =
        Inr db \<and>
      returned_nodes (Inr da) \<subset> returned_nodes (Inr db) \<and>
      returned_edges (Inr da) \<subseteq> returned_edges (Inr db) \<and>
      length (gd_edges da) < length (gd_edges db))"
proof -
  have a: "available two_way_graph" by code_simp
  have p: "page_covers two_way_graph 100 100" by code_simp
  have i: "persons_identified two_way_graph" by code_simp
  have s: "depends_get_current_user_or_none bob_decode [bob] stale_request = Inr None"
    by code_simp
  have b: "depends_get_current_user_or_none bob_decode [bob] bob_request = Inr (Some bob)"
    by code_simp
  have r: "relationships_identified two_way_graph" by code_simp
  have hp: "hidden_person two_way_graph" by code_simp
  have he: "hidden_edge two_way_graph" by code_simp
  from authenticated_sees_what_anonymous_sees [OF a p i s b, of zeros ones] r hp he
  obtain da db where
    "route_get_graph_network bob_decode [bob] two_way_graph zeros stale_request 0 100 0 100 = Inr da"
    "route_get_graph_network bob_decode [bob] two_way_graph ones bob_request 0 100 0 100 = Inr db"
    "returned_nodes (Inr da) \<subset> returned_nodes (Inr db)"
    "returned_edges (Inr da) \<subseteq> returned_edges (Inr db)"
    "length (gd_edges da) < length (gd_edges db)"
    by auto
  with a p i s b r hp he show ?thesis by (intro conjI exI [of _ da] exI [of _ db])
qed

end
